theory Spec2Isabelle
  imports Main "HOL-Library.Sublist" "HOL-Library.AList"
begin

section \<open>The l3afd program lifecycle engine (package kf), embedded in HOL\<close>

text \<open>
  The theory follows \<^verbatim>\<open>kf/bpf.go\<close> and \<^verbatim>\<open>kf/kf_unix.go\<close>. Go strings are byte
  strings and are modelled as \<^typ>\<open>string\<close>. Everything the code asks of the operating
  system, the kernel or a child process is answered by an oracle field of the record
  \<open>env\<close>; an oracle takes the time of the call, counted in the one-second sleeps
  the code has made so far. Everything the code does to the outside is appended to a
  trace of events. Log output is not modelled. The metric sampler (\<^verbatim>\<open>MonitorMaps\<close>,
  \<^verbatim>\<open>AddMetricsBPFMap\<close>), \<^verbatim>\<open>PutNextProgFDFromID\<close>, \<^verbatim>\<open>DisableLRO\<close> and
  \<^verbatim>\<open>VerifyNMountBPFFS\<close> are not part of the embedding.
\<close>

subsection \<open>Errors\<close>

text \<open>
  An error built by \<^verbatim>\<open>fmt.Errorf\<close> or \<^verbatim>\<open>errors.New\<close> keeps its format string, its
  formatted arguments and the error it wraps (\<^verbatim>\<open>%w\<close>, \<^verbatim>\<open>%v\<close>), if any. An error that
  comes out of a library is \<open>OSError\<close> with its message.
\<close>

datatype arg = S string | I int | L "string list"

datatype error = OSError string | Errorf string "arg list" "error option"

subsection \<open>Data model\<close>

record L3afDNFArgs =
  Key :: string
  Value :: string

text \<open>
  \<^verbatim>\<open>models.BPFProgram\<close>: its declaration is not among the sources; the fields are the
  ones \<^verbatim>\<open>bpf.go\<close> and \<^verbatim>\<open>kf_unix.go\<close> read, except \<^verbatim>\<open>MonitorMaps\<close>, which only the
  metric sampler reads.
\<close>

record BPFProgram =
  Name :: string
  SeqID :: int
  Artifact :: string
  MapName :: string
  CmdStart :: string
  CmdStop :: string
  CmdStatus :: string
  CmdConfig :: string
  Version :: string
  IsUserProgram :: bool
  CPU :: int
  Memory :: int
  AdminStatus :: string
  EBPFType :: string
  ConfigFilePath :: string
  RulesFile :: string
  Rules :: string
  StartArgs :: "L3afDNFArgs list"
  StopArgs :: "L3afDNFArgs list"
  StatusArgs :: "L3afDNFArgs list"
  MapArgs :: "L3afDNFArgs list"

text \<open>
  \<^verbatim>\<open>BPFMap\<close> (declared outside the sources): name, kernel map ID and map type. The
  back reference to the owning instance is used for logging only and is left out.
\<close>

record BPFMap =
  map_Name :: string
  MapID :: nat
  Type :: nat

record MetricsBPFMap =
  metrics_BPFMap :: BPFMap
  key :: int
  aggregator :: string

text \<open>\<^verbatim>\<open>exec.Cmd\<close>: \<open>Process\<close> is \<open>None\<close> until the command has been started.\<close>

record exec_Cmd =
  Path :: string
  Args :: "string list"
  Process :: "int option"

text \<open>
  \<^verbatim>\<open>BPF\<close>: a Go map is an association list under an option, \<open>None\<close> being the nil
  map (reading, ranging over and deleting from a nil map behave as for an empty one;
  assigning to it panics). \<open>Done\<close> tells whether the channel has been made.
\<close>

record BPF =
  Program :: BPFProgram
  Cmd :: "exec_Cmd option"
  FilePath :: string
  RestartCount :: int
  LogDir :: string
  PrevMapName :: string
  ProgID :: int
  BpfMaps :: "(string \<times> BPFMap) list option"
  MetricsBpfMaps :: "(string \<times> MetricsBPFMap) list option"
  Done :: bool
  DataCenter :: string

text \<open>\<^verbatim>\<open>NewBpfProgram\<close> (the context is not modelled): both maps are made, the channel is
  nil.\<close>

definition NewBpfProgram :: "BPFProgram \<Rightarrow> string \<Rightarrow> string \<Rightarrow> BPF" where
  "NewBpfProgram program logDir dataCenter =
     \<lparr>Program = program, Cmd = None, FilePath = [], RestartCount = 0, LogDir = logDir,
      PrevMapName = [], ProgID = 0, BpfMaps = Some [], MetricsBpfMaps = Some [], Done = False,
      DataCenter = dataCenter\<rparr>"

subsection \<open>The outside world\<close>

record process =
  Pid :: int
  PPid :: int
  Executable :: string

datatype event =
    EvKill int
  | EvSignalTerm int
  | EvCmdStart string "string list"
  | EvCmdRun string "string list"
  | EvCmdWait
  | EvStatsIncr string string string
  | EvStatsSet int string string string
  | EvDoneSend
  | EvGoRunKFConfigs
  | EvHttpGet string
  | EvMkdirAll string nat
  | EvOpenFile string nat
  | EvCopy string string
  | EvWriteFile string string
  | EvMapDelete string int
  | EvBPFMapUpdate BPFMap string
  | EvPrLimit int string int

record world =
  clock :: nat
  trace :: "event list"

definition emit :: "event \<Rightarrow> world \<Rightarrow> world" where
  "emit e w = w\<lparr>trace := trace w @ [e]\<rparr>"

text \<open>\<^verbatim>\<open>time.Sleep(1 * time.Second)\<close>\<close>

definition sleep1 :: "world \<Rightarrow> world" where
  "sleep1 w = w\<lparr>clock := Suc (clock w)\<rparr>"

text \<open>What \<^verbatim>\<open>os.Stat\<close> returns: a \<^verbatim>\<open>FileInfo\<close> (here only \<^verbatim>\<open>IsDir\<close>), or an error
  that \<^verbatim>\<open>os.IsNotExist\<close> recognises, or any other error.\<close>

datatype stat_result = FileInfo bool | NotExist | StatError string

fun stat_err :: "stat_result \<Rightarrow> string option" where
  "stat_err (FileInfo d) = None"
| "stat_err NotExist = Some ''no such file or directory''"
| "stat_err (StatError e) = Some e"

text \<open>What \<^verbatim>\<open>ebpf.Map.Delete\<close> returns: success, \<^verbatim>\<open>ErrKeyNotExist\<close> when the key is not
  in the map (as the library documents), or another error.\<close>

datatype delete_result = Deleted | KeyNotExist | DeleteError string

record url =
  url_base :: string
  url_Path :: string

text \<open>One result of \<^verbatim>\<open>tarReader.Next()\<close>: an error, or a header with the entry's bytes.
  The end of the list is \<^verbatim>\<open>io.EOF\<close>.\<close>

record tar_header =
  hdr_Name :: string
  hdr_IsDir :: bool
  hdr_Mode :: nat
  hdr_Content :: string

datatype tar_item = TarError string | TarEntry tar_header

text \<open>
  The oracles. \<open>assertExecutable\<close> is a function of the package whose source is not
  among the files; it is taken as a parameter. The constants of package \<^verbatim>\<open>models\<close>
  (\<open>XDPType\<close> to \<open>StopType\<close>) are parameters as well. \<open>kernel_maps\<close> lists the IDs
  of the maps loaded in the kernel: \<^verbatim>\<open>ebpf.MapGetNextID\<close> walks them in increasing order.
\<close>

record env =
  Getpid :: int
  Now :: "nat \<Rightarrow> int"
  Processes :: "nat \<Rightarrow> process list option"
  FindProcess :: "nat \<Rightarrow> int \<Rightarrow> string option"
  Kill :: "nat \<Rightarrow> int \<Rightarrow> string option"
  Signal_SIGTERM :: "nat \<Rightarrow> int \<Rightarrow> string option"
  Stat :: "nat \<Rightarrow> string \<Rightarrow> stat_result"
  assertExecutable :: "nat \<Rightarrow> string \<Rightarrow> error option"
  cmd_Start :: "nat \<Rightarrow> string \<Rightarrow> string list \<Rightarrow> string + int"
  cmd_Run :: "nat \<Rightarrow> string \<Rightarrow> string list \<Rightarrow> string \<times> string option"
  cmd_Wait :: "nat \<Rightarrow> exec_Cmd \<Rightarrow> string option"
  sidecar_receives :: "nat \<Rightarrow> bool"
  ReadProcStat :: "nat \<Rightarrow> int \<Rightarrow> string + string"
  WriteFile :: "nat \<Rightarrow> string \<Rightarrow> string \<Rightarrow> string option"
  MkdirAll :: "nat \<Rightarrow> string \<Rightarrow> nat \<Rightarrow> string option"
  OpenFile :: "nat \<Rightarrow> string \<Rightarrow> nat \<Rightarrow> string option"
  CopyBuffer :: "nat \<Rightarrow> string \<Rightarrow> string \<Rightarrow> string option"
  url_Parse :: "string \<Rightarrow> string + url"
  http_Get :: "nat \<Rightarrow> string \<Rightarrow> string + nat \<times> string"
  gunzip_tar :: "string \<Rightarrow> string + tar_item list"
  LoadPinnedMap :: "nat \<Rightarrow> string \<Rightarrow> string option"
  pinned_Info :: "nat \<Rightarrow> string \<Rightarrow> string + nat option \<times> nat"
  map_Delete :: "nat \<Rightarrow> string \<Rightarrow> int \<Rightarrow> delete_result"
  map_Lookup :: "nat \<Rightarrow> string \<Rightarrow> int \<Rightarrow> string + int"
  NewProgramFromID :: "nat \<Rightarrow> int \<Rightarrow> string option"
  kernel_maps :: "nat \<Rightarrow> nat list"
  NewMapFromID :: "nat \<Rightarrow> nat \<Rightarrow> string option"
  map_Info :: "nat \<Rightarrow> nat \<Rightarrow> string + string \<times> nat"
  XDPType :: string
  TCType :: string
  IngressType :: string
  EgressType :: string
  Enabled :: string
  StartType :: string
  StopType :: string

text \<open>A call returns, or panics (a nil dereference, an assignment to a nil map), or blocks
  for ever (a send on a channel nobody receives from).\<close>

datatype 'a outcome = Returns 'a | Panics | Blocks

definition and_then :: "'a outcome \<Rightarrow> ('a \<Rightarrow> 'b outcome) \<Rightarrow> 'b outcome" where
  "and_then m f = (case m of Returns x \<Rightarrow> f x | Panics \<Rightarrow> Panics | Blocks \<Rightarrow> Blocks)"

text \<open>\<^verbatim>\<open>config.Config\<close>, the fields the package reads.\<close>

record Config =
  BPFDir :: string
  KFRepoURL :: string
  HttpClientTimeout :: int
  BpfChainingEnabled :: bool
  XDPRootProgramName :: string
  XDPRootProgramArtifact :: string
  XDPRootProgramMapName :: string
  XDPRootProgramVersion :: string
  XDPRootProgramIsUserProgram :: bool
  XDPRootProgramCommand :: string
  TCRootProgramName :: string
  TCRootProgramArtifact :: string
  TCRootProgramVersion :: string
  TCRootProgramIsUserProgram :: bool
  TCRootProgramCommand :: string
  TCRootProgramIngressMapName :: string
  TCRootProgramEgressMapName :: string

subsection \<open>Library functions on strings\<close>

text \<open>\<^verbatim>\<open>strings.Contains(s, substr)\<close>: \<open>substr\<close> occurs in \<open>s\<close> as a contiguous block.\<close>

fun strings_Contains :: "string \<Rightarrow> string \<Rightarrow> bool" where
  "strings_Contains [] substr = (substr = [])"
| "strings_Contains (c # s) substr = (prefix substr (c # s) \<or> strings_Contains s substr)"

text \<open>\<^verbatim>\<open>strings.Split(s, ".")[0]\<close>: the bytes before the first dot (\<^verbatim>\<open>Split\<close> with a
  non-empty separator never returns an empty slice, so the index is in range).\<close>

definition strings_Split_dot_0 :: "string \<Rightarrow> string" where
  "strings_Split_dot_0 s = takeWhile (\<lambda>c. c \<noteq> CHR ''.'') s"

text \<open>\<^verbatim>\<open>strings.Join(elems, sep)\<close> and the split at a separator byte.\<close>

fun strings_Join :: "string list \<Rightarrow> string \<Rightarrow> string" where
  "strings_Join [] sep = []"
| "strings_Join [e] sep = e"
| "strings_Join (e # es) sep = e @ sep @ strings_Join es sep"

fun split_at :: "char \<Rightarrow> string \<Rightarrow> string list" where
  "split_at sep [] = [[]]"
| "split_at sep (c # cs) =
     (if c = sep then [] # split_at sep cs
      else (case split_at sep cs of [] \<Rightarrow> [[c]] | p # ps \<Rightarrow> (c # p) # ps))"

text \<open>
  \<^verbatim>\<open>path.Clean\<close>, lexically: empty and \<^verbatim>\<open>.\<close> elements go, an inner \<^verbatim>\<open>..\<close> removes the
  element before it, a \<^verbatim>\<open>..\<close> at the root goes, and the empty result is \<^verbatim>\<open>.\<close>.
  \<open>clean_parts\<close> keeps the elements read so far in reverse.
\<close>

fun clean_parts :: "bool \<Rightarrow> string list \<Rightarrow> string list \<Rightarrow> string list" where
  "clean_parts rooted [] out = rev out"
| "clean_parts rooted (c # cs) out =
     (if c = [] \<or> c = ''.'' then clean_parts rooted cs out
      else if c = ''..'' then
        (case out of
           [] \<Rightarrow> if rooted then clean_parts rooted cs [] else clean_parts rooted cs [c]
         | d # ds \<Rightarrow>
             if d = ''..'' then clean_parts rooted cs (c # out) else clean_parts rooted cs ds)
      else clean_parts rooted cs (c # out))"

definition path_Clean :: "string \<Rightarrow> string" where
  "path_Clean p =
     (if p = [] then ''.''
      else
        let rooted = (hd p = CHR ''/'');
            body = strings_Join (clean_parts rooted (split_at CHR ''/'' p) []) ''/''
        in if rooted then CHR ''/'' # body else if body = [] then ''.'' else body)"

text \<open>\<^verbatim>\<open>filepath.Join\<close> (on Unix) and \<^verbatim>\<open>path.Join\<close>: the elements from the first non-empty
  one, respectively the non-empty elements, joined by a slash and cleaned.\<close>

definition filepath_Join :: "string list \<Rightarrow> string" where
  "filepath_Join elem =
     (case dropWhile (\<lambda>e. e = []) elem of [] \<Rightarrow> [] | e # es \<Rightarrow> path_Clean (strings_Join (e # es) ''/''))"

definition path_Join :: "string list \<Rightarrow> string" where
  "path_Join elem =
     (case filter (\<lambda>e. e \<noteq> []) elem of [] \<Rightarrow> [] | e # es \<Rightarrow> path_Clean (strings_Join (e # es) ''/''))"

text \<open>
  \<^verbatim>\<open>strings.EqualFold\<close> on bytes, with the case folding of ASCII letters. Runes beyond
  ASCII fold to an ASCII letter only for K and S (the Kelvin sign and the long s), so
  against a text of other ASCII letters, such as \<^verbatim>\<open>RUNNING\<close>, this is the library's
  function.
\<close>

definition fold_eq :: "char \<Rightarrow> char \<Rightarrow> bool" where
  "fold_eq a b =
     (a = b \<or>
      (65 \<le> (of_char a :: nat) \<and> (of_char a :: nat) \<le> 90 \<and> (of_char b :: nat) = of_char a + 32) \<or>
      (65 \<le> (of_char b :: nat) \<and> (of_char b :: nat) \<le> 90 \<and> (of_char a :: nat) = of_char b + 32))"

definition strings_EqualFold :: "string \<Rightarrow> string \<Rightarrow> bool" where
  "strings_EqualFold s t = list_all2 fold_eq s t"

text \<open>\<^verbatim>\<open>strings.TrimSpace\<close>, for the ASCII white space (tab, line feed, vertical tab, form
  feed, carriage return, space).\<close>

definition is_space :: "char \<Rightarrow> bool" where
  "is_space c = ((9 \<le> (of_char c :: nat) \<and> (of_char c :: nat) \<le> 13) \<or> (of_char c :: nat) = 32)"

definition strings_TrimSpace :: "string \<Rightarrow> string" where
  "strings_TrimSpace s = rev (dropWhile is_space (rev (dropWhile is_space s)))"

text \<open>
  \<^verbatim>\<open>fmt.Sscanf(s, "%s %s %s", ...)\<close>: three fields separated by blanks on the first line
  of the input; fewer is an error.
\<close>

fun fields_of :: "string \<Rightarrow> string \<Rightarrow> string list" where
  "fields_of cur [] = (if cur = [] then [] else [rev cur])"
| "fields_of cur (c # cs) =
     (if is_space c then (if cur = [] then fields_of [] cs else rev cur # fields_of [] cs)
      else fields_of (c # cur) cs)"

definition Sscanf3 :: "string \<Rightarrow> string + string \<times> string \<times> string" where
  "Sscanf3 s =
     (case fields_of [] (takeWhile (\<lambda>c. c \<noteq> CHR 0x0A) s) of
        u1 # u2 # st # rest \<Rightarrow> Inr (u1, u2, st)
      | _ \<Rightarrow> Inl ''unexpected newline'')"

definition bpfStatus :: string where
  "bpfStatus = ''RUNNING''"

subsection \<open>StopExternalRunningProcess\<close>

text \<open>The loop over \<^verbatim>\<open>processList\<close> (bpf.go, lines 177 to 190).\<close>

fun kill_matching :: "env \<Rightarrow> string \<Rightarrow> int \<Rightarrow> process list \<Rightarrow> world \<Rightarrow> error option \<times> world" where
  "kill_matching env psName myPid [] w = (None, w)"
| "kill_matching env psName myPid (p # ps) w =
     (if strings_Contains (Executable p) psName then
        (if PPid p \<noteq> myPid then
           (case FindProcess env (clock w) (Pid p) of
              Some e \<Rightarrow>
                (Some (Errorf ''external BPFProgram stop failed with error: %w'' [] (Some (OSError e))), w)
            | None \<Rightarrow>
                (case Kill env (clock w) (Pid p) of
                   Some e \<Rightarrow>
                     (Some (Errorf ''external BPFProgram stop failed with error: %w'' [] (Some (OSError e))),
                      emit (EvKill (Pid p)) w)
                 | None \<Rightarrow> kill_matching env psName myPid ps (emit (EvKill (Pid p)) w)))
         else kill_matching env psName myPid ps w)
      else kill_matching env psName myPid ps w)"

definition StopExternalRunningProcess :: "env \<Rightarrow> string \<Rightarrow> world \<Rightarrow> error option \<times> world" where
  "StopExternalRunningProcess env processName w =
     (if length processName < 1 then (Some (Errorf ''process name can not be empty'' [] None), w)
      else
        let psName = (if length processName > 15 then take 15 processName else processName);
            myPid = Getpid env
        in (case Processes env (clock w) of
              None \<Rightarrow> (Some (Errorf ''failed to fetch processes list'' [] None), w)
            | Some processList \<Rightarrow> kill_matching env psName myPid processList w))"

subsection \<open>Polls of the filesystem, the process object and the kernel\<close>

text \<open>
  Each of the loops \<^verbatim>\<open>for i := 0; i < 10; i++\<close> is a recursion on the iterations left.
  The loops carry the variable \<^verbatim>\<open>err\<close> of their function.
\<close>

fun exists_loop :: "env \<Rightarrow> string \<Rightarrow> nat \<Rightarrow> string option \<Rightarrow> world \<Rightarrow> bool \<times> string option \<times> world" where
  "exists_loop env mapName 0 err w = (False, err, w)"
| "exists_loop env mapName (Suc n) err w =
     (case stat_err (Stat env (clock w) mapName) of
        None \<Rightarrow> (True, None, w)
      | Some e \<Rightarrow> exists_loop env mapName n (Some e) (sleep1 w))"

definition VerifyPinnedMapExists :: "env \<Rightarrow> bool \<Rightarrow> BPF \<Rightarrow> world \<Rightarrow> error option \<times> world" where
  "VerifyPinnedMapExists env chain b w =
     (if \<not> chain then (None, w)
      else if length (MapName (Program b)) > 0 then
        (case exists_loop env (MapName (Program b)) 10 None w of
           (True, err, w') \<Rightarrow> (None, w')
         | (False, None, w') \<Rightarrow> (None, w')
         | (False, Some e, w') \<Rightarrow>
             (Some (Errorf ''failed to find pinned file %s err %w'' [S (MapName (Program b))]
                (Some (OSError e))), w'))
      else (None, w))"

fun vanish_loop :: "env \<Rightarrow> string \<Rightarrow> nat \<Rightarrow> string option \<Rightarrow> world \<Rightarrow> bool \<times> string option \<times> world" where
  "vanish_loop env mapName 0 err w = (False, err, w)"
| "vanish_loop env mapName (Suc n) err w =
     (case Stat env (clock w) mapName of
        NotExist \<Rightarrow> (True, stat_err NotExist, w)
      | StatError e \<Rightarrow> vanish_loop env mapName n (Some e) (sleep1 w)
      | FileInfo d \<Rightarrow> vanish_loop env mapName n None (sleep1 w))"

definition VerifyPinnedMapVanish :: "env \<Rightarrow> bool \<Rightarrow> BPF \<Rightarrow> world \<Rightarrow> error option \<times> world" where
  "VerifyPinnedMapVanish env chain b w =
     (if length (MapName (Program b)) \<le> 0 \<or> EBPFType (Program b) \<noteq> XDPType env \<or> \<not> chain
      then (None, w)
      else
        (case vanish_loop env (MapName (Program b)) 10 None w of
           (True, err, w') \<Rightarrow> (None, w')
         | (False, err, w') \<Rightarrow>
             (Some (Errorf ''%s map file was never removed by BPF program %s err %w''
                [S (MapName (Program b)), S (Name (Program b))] (map_option OSError err)), w')))"

fun process_loop :: "exec_Cmd \<Rightarrow> nat \<Rightarrow> world \<Rightarrow> bool \<times> world" where
  "process_loop c 0 w = (False, w)"
| "process_loop c (Suc n) w =
     (if Process c \<noteq> None then (True, w) else process_loop c n (sleep1 w))"

definition VerifyProcessObject :: "BPF \<Rightarrow> world \<Rightarrow> error option \<times> world" where
  "VerifyProcessObject b w =
     (case Cmd b of
        None \<Rightarrow> (Some (Errorf ''command object is nil - %s'' [S (Name (Program b))] None), w)
      | Some c \<Rightarrow>
          (case process_loop c 10 w of
             (True, w') \<Rightarrow> (None, w')
           | (False, w') \<Rightarrow>
               (Some (Errorf ''process object is nil - %s'' [S (Name (Program b))] None), w')))"

text \<open>The entries of a Go map, none for the nil map.\<close>

definition entries :: "('k \<times> 'v) list option \<Rightarrow> ('k \<times> 'v) list" where
  "entries m = (case m of None \<Rightarrow> [] | Some kvs \<Rightarrow> kvs)"

text \<open>\<^verbatim>\<open>ebpf.NewMapFromID\<close> answers \<open>None\<close> when it resolves the ID (no error).\<close>

fun metrics_loop :: "env \<Rightarrow> (string \<times> BPFMap) list \<Rightarrow> nat \<Rightarrow> world \<Rightarrow> bool \<times> world" where
  "metrics_loop env maps 0 w = (False, w)"
| "metrics_loop env maps (Suc n) w =
     (if list_ex (\<lambda>kv. NewMapFromID env (clock w) (MapID (snd kv)) = None) maps
      then metrics_loop env maps n (sleep1 w)
      else (True, w))"

definition VerifyMetricsMapsVanish :: "env \<Rightarrow> BPF \<Rightarrow> world \<Rightarrow> error option \<times> world" where
  "VerifyMetricsMapsVanish env b w =
     (case metrics_loop env (entries (BpfMaps b)) 10 w of
        (True, w') \<Rightarrow> (None, w')
      | (False, w') \<Rightarrow>
          (Some (Errorf ''metrics maps are never removed by Kernel %s'' [S (Name (Program b))] None), w'))"

subsection \<open>The next-program and previous-program slots\<close>

definition RemoveNextProgFD :: "env \<Rightarrow> BPF \<Rightarrow> world \<Rightarrow> error option \<times> world" where
  "RemoveNextProgFD env b w =
     (if length (MapName (Program b)) = 0 then (None, w)
      else
        (case LoadPinnedMap env (clock w) (MapName (Program b)) of
           Some e \<Rightarrow>
             (Some (Errorf ''unable to access pinned next prog map %s %v'' [S (MapName (Program b))]
                (Some (OSError e))), w)
         | None \<Rightarrow>
             (case map_Delete env (clock w) (MapName (Program b)) 0 of
                Deleted \<Rightarrow> (None, emit (EvMapDelete (MapName (Program b)) 0) w)
              | KeyNotExist \<Rightarrow>
                  (Some (Errorf ''failed to delete prog fd entry'' [] None),
                   emit (EvMapDelete (MapName (Program b)) 0) w)
              | DeleteError e \<Rightarrow>
                  (Some (Errorf ''failed to delete prog fd entry'' [] None),
                   emit (EvMapDelete (MapName (Program b)) 0) w))))"

definition RemovePrevProgFD :: "env \<Rightarrow> BPF \<Rightarrow> world \<Rightarrow> error option \<times> world" where
  "RemovePrevProgFD env b w =
     (case LoadPinnedMap env (clock w) (PrevMapName b) of
        Some e \<Rightarrow>
          (Some (Errorf ''unable to access pinned prev prog map %s %v'' [S (PrevMapName b)]
             (Some (OSError e))), w)
      | None \<Rightarrow>
          (case map_Delete env (clock w) (PrevMapName b) 0 of
             Deleted \<Rightarrow> (None, emit (EvMapDelete (PrevMapName b) 0) w)
           | KeyNotExist \<Rightarrow> (None, emit (EvMapDelete (PrevMapName b) 0) w)
           | DeleteError e \<Rightarrow> (None, emit (EvMapDelete (PrevMapName b) 0) w)))"

definition GetProgID :: "env \<Rightarrow> BPF \<Rightarrow> nat \<Rightarrow> error + int" where
  "GetProgID env b t =
     (case LoadPinnedMap env t (PrevMapName b) of
        Some e \<Rightarrow>
          Inl (Errorf ''unable to access pinned prog map %s %v'' [S (PrevMapName b)] (Some (OSError e)))
      | None \<Rightarrow>
          (case map_Lookup env t (PrevMapName b) 0 of
             Inl e \<Rightarrow> Inl (Errorf ''unable to lookup prog map %w'' [] (Some (OSError e)))
           | Inr v \<Rightarrow>
               (case NewProgramFromID env t v of
                  Some e \<Rightarrow>
                    Inl (Errorf ''failed to verify program ID %s %v'' [S (Name (Program b))]
                      (Some (OSError e)))
                | None \<Rightarrow> Inr v)))"

subsection \<open>Config maps\<close>

text \<open>\<^verbatim>\<open>ebpf.MapGetNextID\<close>: the least ID above the given one, an error when there is none.\<close>

definition MapGetNextID :: "nat list \<Rightarrow> nat \<Rightarrow> nat option" where
  "MapGetNextID ids cur =
     (case filter (\<lambda>i. cur < i) ids of [] \<Rightarrow> None | i # rest \<Rightarrow> Some (Min (set (i # rest))))"

text \<open>The loop of \<^verbatim>\<open>GetBPFMap\<close> over the kernel's maps (XDP programs).\<close>

function xdp_find_map :: "env \<Rightarrow> nat \<Rightarrow> string \<Rightarrow> string \<Rightarrow> nat \<Rightarrow> error + BPFMap" where
  "xdp_find_map env t mapName mpName mpId =
     (case MapGetNextID (kernel_maps env t) mpId of
        None \<Rightarrow>
          Inl (Errorf ''failed to fetch the map object %v'' [] (Some (OSError ''no such file or directory'')))
      | Some tmpMapId \<Rightarrow>
          (case NewMapFromID env t tmpMapId of
             Some e \<Rightarrow> Inl (Errorf ''failed to get NewMapFromID %v'' [] (Some (OSError e)))
           | None \<Rightarrow>
               (case map_Info env t tmpMapId of
                  Inl e \<Rightarrow> Inl (Errorf ''failed to fetch ebpfinfo %v'' [] (Some (OSError e)))
                | Inr info \<Rightarrow>
                    if fst info = mpName
                    then Inr \<lparr>map_Name = mapName, MapID = tmpMapId, Type = snd info\<rparr>
                    else xdp_find_map env t mapName mpName tmpMapId)))"
  by pat_completeness auto
termination
proof (relation "measure (\<lambda>(env, t, mapName, mpName, mpId). Suc (Max (set (mpId # kernel_maps env t))) - mpId)")
  show "wf (measure (\<lambda>(env, t, mapName, mpName, mpId). Suc (Max (set (mpId # kernel_maps env t))) - mpId))"
    by simp
next
  fix env :: env and t :: nat and mapName mpName :: string and mpId x2 :: nat
  assume next_id: "MapGetNextID (kernel_maps env t) mpId = Some x2"
  then obtain i rest where f: "filter (\<lambda>i. mpId < i) (kernel_maps env t) = i # rest"
    and x2: "x2 = Min (set (i # rest))"
    by (auto simp: MapGetNextID_def split: list.splits)
  have "x2 \<in> set (i # rest)"
    unfolding x2 by (rule Min_in) simp_all
  then have "x2 \<in> set (filter (\<lambda>i. mpId < i) (kernel_maps env t))"
    by (simp only: f)
  then have mem: "x2 \<in> set (kernel_maps env t)" and gt: "mpId < x2"
    by simp_all
  have le: "x2 \<le> Max (set (mpId # kernel_maps env t))"
    by (rule Max_ge) (use mem in simp_all)
  have bound: "Max (set (x2 # kernel_maps env t)) \<le> Max (set (mpId # kernel_maps env t))"
    by (rule Max.boundedI) (use mem le in auto)
  have "Suc (Max (set (x2 # kernel_maps env t))) - x2 < Suc (Max (set (mpId # kernel_maps env t))) - mpId"
    using bound gt le by linarith
  then show "((env, t, mapName, mpName, x2), (env, t, mapName, mpName, mpId))
      \<in> measure (\<lambda>(env, t, mapName, mpName, mpId). Suc (Max (set (mpId # kernel_maps env t))) - mpId)"
    by simp
qed

definition GetBPFMap :: "env \<Rightarrow> BPF \<Rightarrow> string \<Rightarrow> nat \<Rightarrow> error + BPFMap" where
  "GetBPFMap env b mapName t =
     (if EBPFType (Program b) = TCType env then
        (case LoadPinnedMap env t mapName of
           Some e \<Rightarrow> Inl (Errorf ''ebpf LoadPinnedMap failed %v'' [] (Some (OSError e)))
         | None \<Rightarrow>
             (case pinned_Info env t mapName of
                Inl e \<Rightarrow> Inl (Errorf ''fetching map info failed %v'' [] (Some (OSError e)))
              | Inr info \<Rightarrow>
                  (case fst info of
                     None \<Rightarrow> Inl (Errorf ''fetching map id failed %v'' [] None)
                   | Some tempMapID \<Rightarrow>
                       Inr \<lparr>map_Name = mapName, MapID = tempMapID, Type = snd info\<rparr>)))
      else if EBPFType (Program b) = XDPType env then
        xdp_find_map env t mapName (if length mapName > 15 then take 15 mapName else mapName) 0
      else Inr \<lparr>map_Name = [], MapID = 0, Type = 0\<rparr>)"

definition AddBPFMap :: "env \<Rightarrow> string \<Rightarrow> BPF \<Rightarrow> world \<Rightarrow> (error option \<times> BPF) outcome" where
  "AddBPFMap env mapName b w =
     (case GetBPFMap env b mapName (clock w) of
        Inl e \<Rightarrow> Returns (Some e, b)
      | Inr bpfMap \<Rightarrow>
          (case BpfMaps b of
             None \<Rightarrow> Panics
           | Some m \<Rightarrow> Returns (None, b\<lparr>BpfMaps := Some (AList.update mapName bpfMap m)\<rparr>)))"

text \<open>
  The loop of \<^verbatim>\<open>Update\<close> over \<^verbatim>\<open>MapArgs\<close>. \<^verbatim>\<open>BPFMap.Update\<close> is declared outside the
  sources and its result is not read: the call is an event.
\<close>

fun update_loop :: "env \<Rightarrow> L3afDNFArgs list \<Rightarrow> BPF \<Rightarrow> world \<Rightarrow> (error option \<times> BPF \<times> world) outcome" where
  "update_loop env [] b w = Returns (None, b, w)"
| "update_loop env (val # vals) b w =
     (case map_of (entries (BpfMaps b)) (Key val) of
        Some bpfMap \<Rightarrow> update_loop env vals b (emit (EvBPFMapUpdate bpfMap (Value val)) w)
      | None \<Rightarrow>
          (case AddBPFMap env (Key val) b w of
             Panics \<Rightarrow> Panics
           | Blocks \<Rightarrow> Blocks
           | Returns (Some e, b1) \<Rightarrow> Returns (Some e, b1, w)
           | Returns (None, b1) \<Rightarrow>
               update_loop env vals b1
                 (emit (EvBPFMapUpdate
                    (case map_of (entries (BpfMaps b1)) (Key val) of
                       None \<Rightarrow> \<lparr>map_Name = [], MapID = 0, Type = 0\<rparr>
                     | Some bpfMap \<Rightarrow> bpfMap) (Value val)) w)))"

definition Update :: "env \<Rightarrow> string \<Rightarrow> string \<Rightarrow> BPF \<Rightarrow> world \<Rightarrow> (error option \<times> BPF \<times> world) outcome" where
  "Update env ifaceName direction b w =
     and_then (update_loop env (MapArgs (Program b)) b w) (\<lambda>(err, b1, w1).
       case err of
         Some e \<Rightarrow> Returns (Some e, b1, w1)
       | None \<Rightarrow> Returns (None, b1, emit (EvStatsIncr ''NFUpdateCount'' (Name (Program b1)) direction) w1))"

subsection \<open>The child process (kf\_unix.go)\<close>

text \<open>\<^verbatim>\<open>b.Cmd.Process.Signal(syscall.SIGTERM)\<close> dereferences \<^verbatim>\<open>b.Cmd\<close> and its process.\<close>

definition ProcessTerminate :: "env \<Rightarrow> BPF \<Rightarrow> world \<Rightarrow> (error option \<times> world) outcome" where
  "ProcessTerminate env b w =
     (case Cmd b of
        None \<Rightarrow> Panics
      | Some c \<Rightarrow>
          (case Process c of
             None \<Rightarrow> Panics
           | Some pid \<Rightarrow>
               (case Signal_SIGTERM env (clock w) pid of
                  Some e \<Rightarrow>
                    Returns (Some (Errorf ''BPFProgram %s SIGTERM failed with error: %w''
                      [S (Name (Program b))] (Some (OSError e))), emit (EvSignalTerm pid) w)
                | None \<Rightarrow> Returns (None, emit (EvSignalTerm pid) w))))"

text \<open>\<^verbatim>\<open>SetPrLimits\<close>: what \<^verbatim>\<open>prLimit\<close> returns is only logged.\<close>

definition SetPrLimits :: "BPF \<Rightarrow> world \<Rightarrow> (error option \<times> world) outcome" where
  "SetPrLimits b w =
     (case Cmd b of
        None \<Rightarrow> Returns (Some (Errorf ''no Process to set limits'' [] None), w)
      | Some c \<Rightarrow>
          and_then
            (if Memory (Program b) \<noteq> 0 then
               (case Process c of
                  None \<Rightarrow> Panics
                | Some pid \<Rightarrow> Returns (emit (EvPrLimit pid ''RLIMIT_AS'' (Memory (Program b))) w))
             else Returns w)
            (\<lambda>w1.
               if CPU (Program b) \<noteq> 0 then
                 (case Process c of
                    None \<Rightarrow> Panics
                  | Some pid \<Rightarrow>
                      Returns (None, emit (EvPrLimit pid ''RLIMIT_CPU'' (CPU (Program b))) w1))
               else Returns (None, w1)))"

text \<open>\<open>ReadProcStat env t pid\<close> is \<^verbatim>\<open>ioutil.ReadFile(fmt.Sprintf("/proc/%d/stat", pid))\<close>.\<close>

definition IsProcessRunning :: "env \<Rightarrow> int \<Rightarrow> string \<Rightarrow> nat \<Rightarrow> bool \<times> error option" where
  "IsProcessRunning env pid name t =
     (case ReadProcStat env t pid of
        Inl e \<Rightarrow>
          (False, Some (Errorf ''BPF Program not running %s because of error: %w'' [S name]
             (Some (OSError e))))
      | Inr procState \<Rightarrow>
          (case Sscanf3 procState of
             Inl e \<Rightarrow>
               (False, Some (Errorf ''failed to scan proc state with error: %w'' [] (Some (OSError e))))
           | Inr flds \<Rightarrow>
               if snd (snd flds) = ''Z'' then (False, Some (Errorf ''process %d in Zombie state'' [I pid] None))
               else (True, None)))"

text \<open>\<^verbatim>\<open>GetPlatform\<close>: \<^verbatim>\<open>lsb_release -cs\<close>, its output trimmed.\<close>

definition GetPlatform :: "env \<Rightarrow> world \<Rightarrow> (error + string) \<times> world" where
  "GetPlatform env w =
     (case snd (cmd_Run env (clock w) ''lsb_release'' [''-cs'']) of
        Some e \<Rightarrow>
          (Inl (Errorf ''l3afd/nf : Failed to run command with error: %w'' [] (Some (OSError e))),
           emit (EvCmdRun ''lsb_release'' [''-cs'']) w)
      | None \<Rightarrow>
          (Inr (strings_TrimSpace (fst (cmd_Run env (clock w) ''lsb_release'' [''-cs'']))),
           emit (EvCmdRun ''lsb_release'' [''-cs'']) w))"

subsection \<open>isRunning\<close>

definition status_args :: "L3afDNFArgs list \<Rightarrow> string list" where
  "status_args vals =
     concat (map (\<lambda>val. (''--'' @ Key val) # (if length (Value val) > 0 then [''='' @ Value val] else [])) vals)"

definition isRunning :: "env \<Rightarrow> BPF \<Rightarrow> world \<Rightarrow> ((bool \<times> error option) \<times> world) outcome" where
  "isRunning env b w =
     (if length (CmdStatus (Program b)) > 1 then
        (case assertExecutable env (clock w) (filepath_Join [FilePath b, CmdStatus (Program b)]) of
           Some e \<Rightarrow>
             Returns ((False, Some (Errorf ''failed to execute %s with error: %w''
               [S (CmdStatus (Program b))] (Some e))), w)
         | None \<Rightarrow>
             (if strings_EqualFold
                   (fst (cmd_Run env (clock w) (filepath_Join [FilePath b, CmdStatus (Program b)])
                      (status_args (StatusArgs (Program b)))))
                   bpfStatus
              then Returns ((True, None),
                     emit (EvCmdRun (filepath_Join [FilePath b, CmdStatus (Program b)])
                       (status_args (StatusArgs (Program b)))) w)
              else Returns ((False, Some (Errorf ''l3afd/nf : BPF Program not running %s''
                       [S (fst (cmd_Run env (clock w) (filepath_Join [FilePath b, CmdStatus (Program b)])
                          (status_args (StatusArgs (Program b)))))] None)),
                     emit (EvCmdRun (filepath_Join [FilePath b, CmdStatus (Program b)])
                       (status_args (StatusArgs (Program b)))) w)))
      else if \<not> IsUserProgram (Program b) then Returns ((True, None), w)
      else
        (case VerifyProcessObject b w of
           (Some e, w1) \<Rightarrow> Returns ((False, Some (Errorf ''no process id found'' [] None)), w1)
         | (None, w1) \<Rightarrow>
             (case Cmd b of
                None \<Rightarrow> Panics
              | Some c \<Rightarrow>
                  (case Process c of
                     None \<Rightarrow> Panics
                   | Some pid \<Rightarrow>
                       Returns (IsProcessRunning env pid (Name (Program b)) (clock w1), w1)))))"

subsection \<open>Artifacts\<close>

text \<open>The loop of \<^verbatim>\<open>GetArtifacts\<close> over the tar entries (bpf.go, lines 541 to 575). A call
  that writes to the disk is an event whether it succeeds or not.\<close>

fun untar_loop :: "env \<Rightarrow> string \<Rightarrow> tar_item list \<Rightarrow> world \<Rightarrow> error option \<times> world" where
  "untar_loop env tempDir [] w = (None, w)"
| "untar_loop env tempDir (TarError e # items) w =
     (Some (Errorf ''untar failed: %w'' [] (Some (OSError e))), w)"
| "untar_loop env tempDir (TarEntry h # items) w =
     (if strings_Contains (hdr_Name h) ''..'' then
        (Some (Errorf ''zipped file contians filepath (%s) that includes (..)'' [S (hdr_Name h)] None), w)
      else if hdr_IsDir h then
        (case MkdirAll env (clock w) (filepath_Join [tempDir, hdr_Name h]) (hdr_Mode h) of
           Some e \<Rightarrow>
             (Some (Errorf ''untar failed to create directories: %w'' [] (Some (OSError e))),
              emit (EvMkdirAll (filepath_Join [tempDir, hdr_Name h]) (hdr_Mode h)) w)
         | None \<Rightarrow>
             untar_loop env tempDir items
               (emit (EvMkdirAll (filepath_Join [tempDir, hdr_Name h]) (hdr_Mode h)) w))
      else
        (case OpenFile env (clock w) (filepath_Join [tempDir, hdr_Name h]) (hdr_Mode h) of
           Some e \<Rightarrow>
             (Some (Errorf ''untar failed to create file: %w'' [] (Some (OSError e))),
              emit (EvOpenFile (filepath_Join [tempDir, hdr_Name h]) (hdr_Mode h)) w)
         | None \<Rightarrow>
             (case CopyBuffer env (clock w) (filepath_Join [tempDir, hdr_Name h]) (hdr_Content h) of
                Some e \<Rightarrow>
                  (Some (Errorf ''GetArtifacts failed to copy files: %w'' [] (Some (OSError e))),
                   emit (EvCopy (filepath_Join [tempDir, hdr_Name h]) (hdr_Content h))
                     (emit (EvOpenFile (filepath_Join [tempDir, hdr_Name h]) (hdr_Mode h)) w))
              | None \<Rightarrow>
                  untar_loop env tempDir items
                    (emit (EvCopy (filepath_Join [tempDir, hdr_Name h]) (hdr_Content h))
                       (emit (EvOpenFile (filepath_Join [tempDir, hdr_Name h]) (hdr_Mode h)) w)))))"

definition url_String :: "url \<Rightarrow> string" where
  "url_String u = url_base u @ url_Path u"

text \<open>\<^verbatim>\<open>GetArtifacts\<close>. The timeout of the HTTP client is not modelled; the format of the
  status code error is cut at its line break.\<close>

definition GetArtifacts :: "env \<Rightarrow> Config \<Rightarrow> BPF \<Rightarrow> world \<Rightarrow> error option \<times> BPF \<times> world" where
  "GetArtifacts env conf b w =
     (case url_Parse env (KFRepoURL conf) of
        Inl e \<Rightarrow> (Some (Errorf ''unknown KF repo url format: %w'' [] (Some (OSError e))), b, w)
      | Inr kfRepoURL \<Rightarrow>
          (case GetPlatform env w of
             (Inl e, w1) \<Rightarrow>
               (Some (Errorf ''failed to find KF repo download path: %w'' [] (Some e)), b, w1)
           | (Inr platform, w1) \<Rightarrow>
               (let u = url_String (kfRepoURL\<lparr>url_Path := path_Join [url_Path kfRepoURL,
                          Name (Program b), Version (Program b), platform, Artifact (Program b)]\<rparr>);
                    w2 = emit (EvHttpGet u) w1;
                    tempDir = filepath_Join [BPFDir conf, Name (Program b), Version (Program b)]
                in case http_Get env (clock w1) u of
                     Inl e \<Rightarrow> (Some (Errorf ''download failed: %w'' [] (Some (OSError e))), b, w2)
                   | Inr resp \<Rightarrow>
                       if fst resp \<noteq> 200 then
                         (Some (Errorf ''get request returned unexpected status code: %d (%s), %d was expected''
                            [I (int (fst resp)), S (snd resp)] None), b, w2)
                       else
                         (case gunzip_tar env (snd resp) of
                            Inl e \<Rightarrow>
                              (Some (Errorf ''failed to create Gzip reader: %w'' [] (Some (OSError e))), b, w2)
                          | Inr items \<Rightarrow>
                              (case untar_loop env tempDir items w2 of
                                 (Some e, w3) \<Rightarrow> (Some e, b, w3)
                               | (None, w3) \<Rightarrow>
                                   (None,
                                    b\<lparr>FilePath := filepath_Join
                                       [tempDir, strings_Split_dot_0 (Artifact (Program b))]\<rparr>,
                                    w3))))))"

definition VerifyAndGetArtifacts :: "env \<Rightarrow> Config \<Rightarrow> BPF \<Rightarrow> world \<Rightarrow> error option \<times> BPF \<times> world" where
  "VerifyAndGetArtifacts env conf b w =
     (case Stat env (clock w)
             (filepath_Join [BPFDir conf, Name (Program b), Version (Program b),
                strings_Split_dot_0 (Artifact (Program b))]) of
        NotExist \<Rightarrow> GetArtifacts env conf b w
      | FileInfo d \<Rightarrow>
          (None, b\<lparr>FilePath := filepath_Join [BPFDir conf, Name (Program b), Version (Program b),
             strings_Split_dot_0 (Artifact (Program b))]\<rparr>, w)
      | StatError e \<Rightarrow>
          (None, b\<lparr>FilePath := filepath_Join [BPFDir conf, Name (Program b), Version (Program b),
             strings_Split_dot_0 (Artifact (Program b))]\<rparr>, w))"

definition createUpdateRulesFile :: "env \<Rightarrow> string \<Rightarrow> BPF \<Rightarrow> world \<Rightarrow> (error + string) \<times> world" where
  "createUpdateRulesFile env direction b w =
     (if length (RulesFile (Program b)) < 1 then (Inl (Errorf ''RulesFile name is empty'' [] None), w)
      else
        (case WriteFile env (clock w) (path_Join [FilePath b, direction, RulesFile (Program b)])
                (Rules (Program b)) of
           Some e \<Rightarrow>
             (Inl (Errorf ''create or Update Rules File failed with error %w'' [] (Some (OSError e))),
              emit (EvWriteFile (path_Join [FilePath b, direction, RulesFile (Program b)])
                (Rules (Program b))) w)
         | None \<Rightarrow>
             (Inr (path_Join [FilePath b, direction, RulesFile (Program b)]),
              emit (EvWriteFile (path_Join [FilePath b, direction, RulesFile (Program b)])
                (Rules (Program b))) w)))"

text \<open>\<^verbatim>\<open>fileExists\<close>: when \<^verbatim>\<open>os.Stat\<close> fails with an error that is not "not exist",
  \<^verbatim>\<open>info\<close> is nil and \<^verbatim>\<open>info.IsDir()\<close> dereferences it.\<close>

definition fileExists :: "env \<Rightarrow> string \<Rightarrow> world \<Rightarrow> bool outcome" where
  "fileExists env filename w =
     (case Stat env (clock w) filename of
        NotExist \<Rightarrow> Returns False
      | FileInfo d \<Rightarrow> Returns (\<not> d)
      | StatError e \<Rightarrow> Panics)"

subsection \<open>Stop\<close>

text \<open>
  \<^verbatim>\<open>Stop\<close> when \<^verbatim>\<open>CmdStop\<close> is empty (bpf.go, lines 231 to 253). \<^verbatim>\<open>Cmd.Wait\<close> is taken
  to return; its error is only logged.
\<close>

definition Stop_terminate :: "env \<Rightarrow> bool \<Rightarrow> BPF \<Rightarrow> world \<Rightarrow> (error option \<times> BPF \<times> world) outcome" where
  "Stop_terminate env chain b w =
     and_then (ProcessTerminate env b w) (\<lambda>(err, w1).
       case err of
         Some e \<Rightarrow>
           Returns (Some (Errorf ''BPFProgram %s process terminate failed with error: %w''
             [S (Name (Program b))] (Some e)), b, w1)
       | None \<Rightarrow>
           (let w2 = (if Cmd b \<noteq> None then emit EvCmdWait w1 else w1);
                b1 = (if Cmd b \<noteq> None then b\<lparr>Cmd := None\<rparr> else b)
            in case VerifyPinnedMapVanish env chain b1 w2 of
                 (Some e, w3) \<Rightarrow>
                   Returns (Some (Errorf ''stop user program - failed to remove pinned file %s''
                     [S (Name (Program b))] None), b1, w3)
               | (None, w3) \<Rightarrow>
                   (case VerifyMetricsMapsVanish env b1 w3 of
                      (Some e, w4) \<Rightarrow>
                        Returns (Some (Errorf ''stop user program - failed to remove metric map references %s''
                          [S (Name (Program b))] None), b1, w4)
                    | (None, w4) \<Rightarrow> Returns (None, b1, w4))))"

text \<open>\<^verbatim>\<open>Stop\<close> when \<^verbatim>\<open>CmdStop\<close> is set (lines 256 to 289); a failing stop command is only
  logged.\<close>

definition Stop_command :: "env \<Rightarrow> string \<Rightarrow> string \<Rightarrow> bool \<Rightarrow> BPF \<Rightarrow> world \<Rightarrow> (error option \<times> BPF \<times> world) outcome" where
  "Stop_command env ifaceName direction chain b w =
     (case assertExecutable env (clock w) (filepath_Join [FilePath b, CmdStop (Program b)]) of
        Some e \<Rightarrow>
          Returns (Some (Errorf ''no executable permissions on %s - error %w''
            [S (CmdStop (Program b))] (Some e)), b, w)
      | None \<Rightarrow>
          (let args = [''--iface='' @ ifaceName, ''--direction='' @ direction] @
                 map (\<lambda>val. ''--'' @ Key val @ ''='' @ Value val) (StopArgs (Program b));
               w1 = emit (EvCmdRun (filepath_Join [FilePath b, CmdStop (Program b)]) args) w;
               b1 = b\<lparr>Cmd := None\<rparr>
           in case VerifyPinnedMapVanish env chain b1 w1 of
                (Some e, w2) \<Rightarrow>
                  Returns (Some (Errorf ''failed to remove pinned file %s'' [S (Name (Program b))] None),
                    b1, w2)
              | (None, w2) \<Rightarrow>
                  (case VerifyMetricsMapsVanish env b1 w2 of
                     (Some e, w3) \<Rightarrow>
                       Returns (Some (Errorf ''failed to remove metric map references %s''
                         [S (Name (Program b))] None), b1, w3)
                   | (None, w3) \<Rightarrow> Returns (None, b1, w3))))"

text \<open>
  \<^verbatim>\<open>Stop\<close> (lines 197 to 229, then one of the two branches above). Deleting every key
  leaves a map empty and a nil map nil. The send \<^verbatim>\<open>b.Done <- true\<close> blocks for ever on
  a nil channel, and when the sidecar loop does not receive.
\<close>

definition Stop :: "env \<Rightarrow> string \<Rightarrow> string \<Rightarrow> bool \<Rightarrow> BPF \<Rightarrow> world \<Rightarrow> (error option \<times> BPF \<times> world) outcome" where
  "Stop env ifaceName direction chain b w =
     (if IsUserProgram (Program b) \<and> Cmd b = None then
        Returns (Some (Errorf ''BPFProgram is not running %s'' [S (Name (Program b))] None), b, w)
      else
        (let b1 = b\<lparr>BpfMaps := map_option (\<lambda>m. []) (BpfMaps b),
                    MetricsBpfMaps := map_option (\<lambda>m. []) (MetricsBpfMaps b)\<rparr>;
             sidecar = (length (CmdConfig (Program b)) > 0 \<and> length (ConfigFilePath (Program b)) > 0)
         in if sidecar \<and> (if Done b then \<not> sidecar_receives env (clock w) else True) then Blocks
            else
              (let w1 = (if sidecar then emit EvDoneSend w else w);
                   b2 = b1\<lparr>ProgID := 0\<rparr>;
                   w2 = emit (EvStatsSet 0 ''NFRunning'' (Name (Program b)) direction)
                          (emit (EvStatsIncr ''NFStopCount'' (Name (Program b)) direction) w1)
               in if length (CmdStop (Program b)) < 1 then Stop_terminate env chain b2 w2
                  else Stop_command env ifaceName direction chain b2 w2)))"

subsection \<open>Start\<close>

text \<open>The poll of \<^verbatim>\<open>GetProgID\<close> (lines 384 to 392): \<^verbatim>\<open>b.ProgID\<close> and \<^verbatim>\<open>err\<close> are assigned
  at every turn.\<close>

fun progid_loop :: "env \<Rightarrow> BPF \<Rightarrow> nat \<Rightarrow> error option \<Rightarrow> world \<Rightarrow> error option \<times> BPF \<times> world" where
  "progid_loop env b 0 err w = (err, b, w)"
| "progid_loop env b (Suc n) err w =
     (case GetProgID env b (clock w) of
        Inr v \<Rightarrow> (None, b\<lparr>ProgID := v\<rparr>, w)
      | Inl e \<Rightarrow> progid_loop env (b\<lparr>ProgID := 0\<rparr>) n (Some e) (sleep1 w))"

text \<open>
  \<^verbatim>\<open>Start\<close> from the map arguments on (lines 374 to 415). The last log line reads
  \<^verbatim>\<open>b.Cmd.Process.Pid\<close>.
\<close>

definition Start_linked :: "env \<Rightarrow> string \<Rightarrow> string \<Rightarrow> BPF \<Rightarrow> world \<Rightarrow> (error option \<times> BPF \<times> world) outcome" where
  "Start_linked env ifaceName direction b w =
     and_then
       (if length (MapArgs (Program b)) > 0 then Update env ifaceName direction b w
        else Returns (None, b, w))
       (\<lambda>(uerr, b1, w1).
          case uerr of
            Some e \<Rightarrow>
              Returns (Some (Errorf ''failed to update network functions BPF maps %w'' [] (Some e)), b1, w1)
          | None \<Rightarrow>
              (case (if length (PrevMapName b1) > 0 then progid_loop env b1 10 None w1
                     else (None, b1, w1)) of
                 (Some e, b2, w2) \<Rightarrow>
                   Returns (Some (Errorf ''failed to fetch network functions program FD %w'' []
                     (Some e)), b2, w2)
               | (None, b2, w2) \<Rightarrow>
                   (let sidecar = (length (CmdConfig (Program b2)) > 0 \<and>
                                   length (ConfigFilePath (Program b2)) > 0);
                        b3 = (if sidecar then b2\<lparr>Done := True\<rparr> else b2);
                        w3 = (if sidecar then emit EvGoRunKFConfigs w2 else w2)
                    in and_then (SetPrLimits b3 w3) (\<lambda>(lerr, w4).
                         case Cmd b3 of
                           None \<Rightarrow> Panics
                         | Some c \<Rightarrow>
                             (case Process c of
                                None \<Rightarrow> Panics
                              | Some pid \<Rightarrow>
                                  Returns (None, b3,
                                    emit (EvStatsSet (Now env (clock w4)) ''NFStartTime''
                                            (Name (Program b3)) direction)
                                      (emit (EvStatsIncr ''NFStartCount'' (Name (Program b3)) direction)
                                         w4)))))))"

text \<open>\<^verbatim>\<open>Start\<close> once the child has been started (lines 350 to 372).\<close>

definition Start_started :: "env \<Rightarrow> string \<Rightarrow> string \<Rightarrow> bool \<Rightarrow> exec_Cmd \<Rightarrow> BPF \<Rightarrow> world \<Rightarrow> (error option \<times> BPF \<times> world) outcome" where
  "Start_started env ifaceName direction chain c b w =
     (if \<not> IsUserProgram (Program b) then
        (case cmd_Wait env (clock w) c of
           Some e \<Rightarrow>
             Returns (Some (Errorf ''cmd wait at starting of bpf program returned with error %w'' []
               (Some (OSError e))), b, emit EvCmdWait w)
         | None \<Rightarrow>
             (case VerifyPinnedMapExists env chain (b\<lparr>Cmd := None\<rparr>) (emit EvCmdWait w) of
                (Some e, w1) \<Rightarrow>
                  Returns (Some (Errorf ''no userprogram and failed to find pinned file %s, %w''
                    [S (MapName (Program b))] (Some e)), b\<lparr>Cmd := None\<rparr>, w1)
              | (None, w1) \<Rightarrow> Returns (None, b\<lparr>Cmd := None\<rparr>, w1)))
      else
        and_then (isRunning env b w) (\<lambda>(running, w1).
          if \<not> fst running then
            Returns (Some (Errorf ''bpf program %s failed to start %w'' [S (Name (Program b))]
              (snd running)), b, w1)
          else
            (case VerifyPinnedMapExists env chain b w1 of
               (Some e, w2) \<Rightarrow>
                 Returns (Some (Errorf ''failed to find pinned file %s  %w''
                   [S (MapName (Program b))] (Some e)), b, w2)
             | (None, w2) \<Rightarrow> Start_linked env ifaceName direction b w2)))"

text \<open>The arguments of the start command (lines 319 to 342); \<open>rulesFile\<close> is the file
  \<^verbatim>\<open>createUpdateRulesFile\<close> wrote, if it was called and did not fail.\<close>

definition start_args :: "string \<Rightarrow> string \<Rightarrow> bool \<Rightarrow> BPF \<Rightarrow> string option \<Rightarrow> string list" where
  "start_args ifaceName direction chain b rulesFile =
     [''--iface='' @ ifaceName, ''--direction='' @ direction] @
     (if chain \<and> length (PrevMapName b) > 1 then [''--map-name='' @ PrevMapName b] else []) @
     (if length (LogDir b) > 1 then [''--log-dir='' @ LogDir b] else []) @
     (case rulesFile of None \<Rightarrow> [] | Some fileName \<Rightarrow> [''--rules-file='' @ fileName]) @
     map (\<lambda>val. ''--'' @ Key val @ ''='' @ Value val) (StartArgs (Program b))"

text \<open>\<^verbatim>\<open>Start\<close> (lines 297 to 349, then the two parts above). The error of
  \<^verbatim>\<open>RemovePrevProgFD\<close> is only logged.\<close>

definition Start :: "env \<Rightarrow> string \<Rightarrow> string \<Rightarrow> bool \<Rightarrow> BPF \<Rightarrow> world \<Rightarrow> (error option \<times> BPF \<times> world) outcome" where
  "Start env ifaceName direction chain b w =
     (if FilePath b = [] then Returns (Some (Errorf ''no program binary path found'' [] None), b, w)
      else
        (case StopExternalRunningProcess env (CmdStart (Program b)) w of
           (Some e, w1) \<Rightarrow>
             Returns (Some (Errorf ''failed to stop external instance of the program %s with error : %w''
               [S (CmdStart (Program b))] (Some e)), b, w1)
         | (None, w1) \<Rightarrow>
             (case assertExecutable env (clock w1) (filepath_Join [FilePath b, CmdStart (Program b)]) of
                Some e \<Rightarrow>
                  Returns (Some (Errorf ''no executable permissions on %s - error %w''
                    [S (CmdStart (Program b))] (Some e)), b, w1)
              | None \<Rightarrow>
                  (let cmd = filepath_Join [FilePath b, CmdStart (Program b)];
                       w2 = (if length (PrevMapName b) > 0 then snd (RemovePrevProgFD env b w1) else w1);
                       rules = (if length (RulesFile (Program b)) > 1 \<and> length (Rules (Program b)) > 1
                                then (case createUpdateRulesFile env direction b w2 of
                                        (Inl e, w') \<Rightarrow> (None, w')
                                      | (Inr fileName, w') \<Rightarrow> (Some fileName, w'))
                                else (None, w2));
                       args = start_args ifaceName direction chain b (fst rules);
                       w3 = emit (EvCmdStart cmd args) (snd rules)
                   in case cmd_Start env (clock w3) cmd args of
                        Inl e \<Rightarrow>
                          Returns (Some (Errorf ''failed to start : %s %v'' [S cmd, L args] None),
                            b\<lparr>Cmd := Some \<lparr>Path = cmd, Args = args, Process = None\<rparr>\<rparr>, w3)
                      | Inr pid \<Rightarrow>
                          Start_started env ifaceName direction chain
                            \<lparr>Path = cmd, Args = args, Process = Some pid\<rparr>
                            (b\<lparr>Cmd := Some \<lparr>Path = cmd, Args = args, Process = Some pid\<rparr>\<rparr>) w3))))"

subsection \<open>LoadRootProgram\<close>

text \<open>The zero value of \<^verbatim>\<open>models.BPFProgram\<close> and of \<^verbatim>\<open>BPF\<close>.\<close>

definition zero_BPFProgram :: BPFProgram where
  "zero_BPFProgram =
     \<lparr>Name = [], SeqID = 0, Artifact = [], MapName = [], CmdStart = [], CmdStop = [], CmdStatus = [],
      CmdConfig = [], Version = [], IsUserProgram = False, CPU = 0, Memory = 0, AdminStatus = [],
      EBPFType = [], ConfigFilePath = [], RulesFile = [], Rules = [], StartArgs = [], StopArgs = [],
      StatusArgs = [], MapArgs = []\<rparr>"

definition zero_BPF :: BPF where
  "zero_BPF =
     \<lparr>Program = zero_BPFProgram, Cmd = None, FilePath = [], RestartCount = 0, LogDir = [],
      PrevMapName = [], ProgID = 0, BpfMaps = None, MetricsBpfMaps = None, Done = False,
      DataCenter = []\<rparr>"

text \<open>The \<^verbatim>\<open>switch\<close> of \<^verbatim>\<open>LoadRootProgram\<close> (lines 85 to 131): the root program of the
  configuration, or nothing for an unknown type.\<close>

definition root_program :: "env \<Rightarrow> string \<Rightarrow> string \<Rightarrow> Config \<Rightarrow> BPF option" where
  "root_program env direction eBPFType conf =
     (if eBPFType = XDPType env then
        Some (zero_BPF\<lparr>Program := zero_BPFProgram
          \<lparr>Name := XDPRootProgramName conf, Artifact := XDPRootProgramArtifact conf,
           MapName := XDPRootProgramMapName conf, Version := XDPRootProgramVersion conf,
           IsUserProgram := XDPRootProgramIsUserProgram conf, CmdStart := XDPRootProgramCommand conf,
           CmdStop := XDPRootProgramCommand conf, CmdStatus := [], AdminStatus := Enabled env,
           SeqID := 0\<rparr>\<rparr>)
      else if eBPFType = TCType env then
        Some (zero_BPF\<lparr>Program := zero_BPFProgram
          \<lparr>Name := TCRootProgramName conf, Artifact := TCRootProgramArtifact conf,
           Version := TCRootProgramVersion conf,
           IsUserProgram := TCRootProgramIsUserProgram conf, CmdStart := TCRootProgramCommand conf,
           CmdStop := TCRootProgramCommand conf, CmdStatus := [], AdminStatus := Enabled env,
           MapName := (if direction = IngressType env then TCRootProgramIngressMapName conf
                       else if direction = EgressType env then TCRootProgramEgressMapName conf
                       else [])\<rparr>\<rparr>)
      else None)"

text \<open>Modelled from the spec: \<^verbatim>\<open>AddStartArgs\<close> and \<^verbatim>\<open>AddStopArgs\<close>, methods of
  \<^verbatim>\<open>models.BPFProgram\<close> that are not among the sources. The spec has \<^verbatim>\<open>start_args\<close> and
  \<^verbatim>\<open>stop_args\<close> as ordered lists of key/value pairs; the methods add one pair at the end.\<close>

definition AddStartArgs :: "L3afDNFArgs \<Rightarrow> BPFProgram \<Rightarrow> BPFProgram" where
  "AddStartArgs a p = p\<lparr>StartArgs := StartArgs p @ [a]\<rparr>"

definition AddStopArgs :: "L3afDNFArgs \<Rightarrow> BPFProgram \<Rightarrow> BPFProgram" where
  "AddStopArgs a p = p\<lparr>StopArgs := StopArgs p @ [a]\<rparr>"

text \<open>\<^verbatim>\<open>LoadRootProgram\<close> from the default arguments on (lines 133 to 155).\<close>

definition load_root :: "env \<Rightarrow> string \<Rightarrow> string \<Rightarrow> Config \<Rightarrow> BPF \<Rightarrow> world \<Rightarrow> ((error + BPF) \<times> world) outcome" where
  "load_root env ifaceName direction conf rootProgBPF w =
     (case VerifyAndGetArtifacts env conf
             (rootProgBPF\<lparr>Program :=
                AddStopArgs \<lparr>Key = ''cmd'', Value = StopType env\<rparr>
                  (AddStartArgs \<lparr>Key = ''cmd'', Value = StartType env\<rparr> (Program rootProgBPF))\<rparr>) w of
        (Some e, b, w1) \<Rightarrow> Returns (Inl e, w1)
      | (None, b, w1) \<Rightarrow>
          and_then (fileExists env (MapName (Program b)) w1) (\<lambda>ex.
            and_then
              (if ex then Stop env ifaceName direction (BpfChainingEnabled conf) b w1
               else Returns (None, b, w1))
              (\<lambda>(serr, b2, w2).
                 case serr of
                   Some e \<Rightarrow>
                     Returns (Inl (Errorf ''failed to stop root program on iface %s name %s direction %s''
                       [S ifaceName, S (Name (Program b2)), S direction] None), w2)
                 | None \<Rightarrow>
                     and_then (Start env ifaceName direction (BpfChainingEnabled conf) b2 w2)
                       (\<lambda>(err, b3, w3).
                          case err of
                            Some e \<Rightarrow>
                              Returns (Inl (Errorf ''failed to start root program on interface %s''
                                [S ifaceName] None), w3)
                          | None \<Rightarrow> Returns (Inr b3, w3)))))"

definition LoadRootProgram :: "env \<Rightarrow> string \<Rightarrow> string \<Rightarrow> string \<Rightarrow> Config \<Rightarrow> world \<Rightarrow> ((error + BPF) \<times> world) outcome" where
  "LoadRootProgram env ifaceName direction eBPFType conf w =
     (case root_program env direction eBPFType conf of
        None \<Rightarrow>
          Returns (Inl (Errorf ''unknown direction %s for root program in iface %s''
            [S direction, S ifaceName] None), w)
      | Some rootProgBPF \<Rightarrow> load_root env ifaceName direction conf rootProgBPF w)"

section \<open>Specifications and fixtures\<close>

subsection \<open>What StopExternalRunningProcess does, stated on the list of processes\<close>




subsection \<open>A host on which nothing is installed and no command fails\<close>

text \<open>The platform is \<^verbatim>\<open>focal\<close>; the artifact repository does not answer.\<close>

definition w0 :: world where
  "w0 = \<lparr>clock = 0, trace = []\<rparr>"

definition env0 :: env where
  "env0 =
     \<lparr>Getpid = 100,
      Now = (\<lambda>t. 1700000000 + int t),
      Processes = (\<lambda>t. Some []),
      FindProcess = (\<lambda>t pid. None),
      Kill = (\<lambda>t pid. None),
      Signal_SIGTERM = (\<lambda>t pid. None),
      Stat = (\<lambda>t p. NotExist),
      assertExecutable = (\<lambda>t p. None),
      cmd_Start = (\<lambda>t c a. Inr 4242),
      cmd_Run = (\<lambda>t c a. if c = ''lsb_release'' then (''focal'' @ [CHR 0x0A], None) else ([], None)),
      cmd_Wait = (\<lambda>t c. None),
      sidecar_receives = (\<lambda>t. True),
      ReadProcStat = (\<lambda>t pid. Inr ''4242 (prog) S 100''),
      WriteFile = (\<lambda>t p c. None),
      MkdirAll = (\<lambda>t p m. None),
      OpenFile = (\<lambda>t p m. None),
      CopyBuffer = (\<lambda>t p c. None),
      url_Parse = (\<lambda>u. Inr \<lparr>url_base = ''http://repo.example'', url_Path = ''/kfs''\<rparr>),
      http_Get = (\<lambda>t u. Inl ''connection refused''),
      gunzip_tar = (\<lambda>body. Inl ''gzip: invalid header''),
      LoadPinnedMap = (\<lambda>t p. Some ''no such file or directory''),
      pinned_Info = (\<lambda>t p. Inl ''bad file descriptor''),
      map_Delete = (\<lambda>t p k. KeyNotExist),
      map_Lookup = (\<lambda>t p k. Inl ''key does not exist''),
      NewProgramFromID = (\<lambda>t i. Some ''no such file or directory''),
      kernel_maps = (\<lambda>t. []),
      NewMapFromID = (\<lambda>t i. Some ''no such file or directory''),
      map_Info = (\<lambda>t i. Inl ''bad file descriptor''),
      XDPType = ''xdp'',
      TCType = ''tc'',
      IngressType = ''ingress'',
      EgressType = ''egress'',
      Enabled = ''enabled'',
      StartType = ''start'',
      StopType = ''stop''\<rparr>"



subsection \<open>A user program that has been fetched\<close>

definition prog0 :: BPFProgram where
  "prog0 = zero_BPFProgram
     \<lparr>Name := ''ratelimit'', SeqID := 1, Artifact := ''ratelimit.tar.gz'',
      MapName := ''/sys/fs/bpf/ratelimit'', CmdStart := ''ratelimit'', Version := ''1.0'',
      IsUserProgram := True, AdminStatus := ''enabled'', EBPFType := ''xdp''\<rparr>"

definition inst0 :: BPF where
  "inst0 = (NewBpfProgram prog0 ''/var/log/l3afd'' ''dc1'')
     \<lparr>FilePath := ''/var/l3afd/bpf/ratelimit/1.0/ratelimit'',
      PrevMapName := ''/sys/fs/bpf/xdp_root_array''\<rparr>"

text \<open>A host on which every pinned map can be opened and slot 0 of each is empty.\<close>

definition c6_env :: env where
  "c6_env = env0\<lparr>LoadPinnedMap := (\<lambda>t p. None)\<rparr>"

subsection \<open>A configuration, and a host where the root map file cannot be examined\<close>

definition conf0 :: Config where
  "conf0 =
     \<lparr>BPFDir = ''/var/l3afd/bpf'', KFRepoURL = ''http://repo.example/kfs'', HttpClientTimeout = 10,
      BpfChainingEnabled = True,
      XDPRootProgramName = ''xdp-root'', XDPRootProgramArtifact = ''l3af_xdp_root.tar.gz'',
      XDPRootProgramMapName = ''/sys/fs/bpf/xdp_root_array'', XDPRootProgramVersion = ''1.01'',
      XDPRootProgramIsUserProgram = False, XDPRootProgramCommand = ''xdp_root'',
      TCRootProgramName = ''tc-root'', TCRootProgramArtifact = ''l3af_tc_root.tar.gz'',
      TCRootProgramVersion = ''1.0'', TCRootProgramIsUserProgram = False,
      TCRootProgramCommand = ''tc_root'',
      TCRootProgramIngressMapName = ''/sys/fs/bpf/tc/globals/tc_ingress_root_array'',
      TCRootProgramEgressMapName = ''/sys/fs/bpf/tc/globals/tc_egress_root_array''\<rparr>"

text \<open>The artifact directories exist; \<^verbatim>\<open>os.Stat\<close> on the pinned root map is denied.\<close>

definition c10_env :: env where
  "c10_env = env0\<lparr>Stat := (\<lambda>t p. if p = ''/sys/fs/bpf/xdp_root_array''
                                 then StatError ''permission denied'' else FileInfo True)\<rparr>"

subsection \<open>Case-insensitive comparison, and a status command that prints a line\<close>

text \<open>The upper case of an ASCII letter; every other byte stays.\<close>

definition ascii_upper :: "char \<Rightarrow> char" where
  "ascii_upper c = (if 97 \<le> (of_char c :: nat) \<and> (of_char c :: nat) \<le> 122
                    then char_of ((of_char c :: nat) - 32) else c)"

text \<open>The status command prints \<^verbatim>\<open>RUNNING\<close> and a line feed.\<close>

definition c4_env :: env where
  "c4_env = env0\<lparr>cmd_Run := (\<lambda>t c a. (''RUNNING'' @ [CHR 0x0A], None))\<rparr>"

definition c4_inst :: BPF where
  "c4_inst = inst0\<lparr>Program := prog0\<lparr>CmdStatus := ''status.sh''\<rparr>\<rparr>"

subsection \<open>Hosts and instances for Stop and for the artifact store\<close>

text \<open>\<open>c8_env\<close>: every path is a directory. \<open>c7_inst\<close>: a program without a user process,
  stopped by its stop command. \<open>c1_env\<close> and \<open>c1_inst\<close>: a running user program that has
  recorded the config map 7, on a kernel that resolves every map ID at all times.\<close>

definition c8_env :: env where
  "c8_env = env0\<lparr>Stat := (\<lambda>t p. FileInfo True)\<rparr>"


definition c1_env :: env where
  "c1_env = env0\<lparr>NewMapFromID := (\<lambda>t i. None)\<rparr>"

definition c1_inst :: BPF where
  "c1_inst = inst0
     \<lparr>Cmd := Some \<lparr>Path = ''/var/l3afd/bpf/ratelimit/1.0/ratelimit/ratelimit'',
                    Args = [''--iface=eth0'', ''--direction=xdpingress''], Process = Some 4242\<rparr>,
      BpfMaps := Some [(''rl_config_map'', \<lparr>map_Name = ''rl_config_map'', MapID = 7, Type = 2\<rparr>)]\<rparr>"

subsection \<open>An archive with a path that leaves the directory, and a host that cannot start the child\<close>



definition c9_env :: env where
  "c9_env = env0\<lparr>cmd_Start := (\<lambda>t c a. Inl ''fork/exec: exec format error'')\<rparr>"

subsection \<open>The pinned map file over time\<close>




section \<open>Theorems\<close>

subsection \<open>Library and world\<close>

lemma strings_Contains_sublist: "strings_Contains s substr \<longleftrightarrow> sublist substr s"
  by (induction s) (auto simp: sublist_Cons_right)

lemma clock_emit [simp]: "clock (emit e w) = clock w"
  by (simp add: emit_def)

lemma trace_emit [simp]: "trace (emit e w) = trace w @ [e]"
  by (simp add: emit_def)

lemma clock_sleep1 [simp]: "clock (sleep1 w) = Suc (clock w)"
  by (simp add: sleep1_def)

lemma trace_sleep1 [simp]: "trace (sleep1 w) = trace w"
  by (simp add: sleep1_def)

subsection \<open>StopExternalRunningProcess\<close>








subsection \<open>RemoveNextProgFD and RemovePrevProgFD\<close>

text \<open>
  C6, as amended. For a program with an empty map name \<open>RemoveNextProgFD\<close> returns
  success and touches no map. For a non-empty map name it succeeds exactly when the pinned
  map can be opened and the delete of slot 0 succeeds: a missing key (the library's
  \<^verbatim>\<open>ErrKeyNotExist\<close>) makes it fail with "failed to delete prog fd entry".
  \<open>RemovePrevProgFD\<close> tolerates a missing key, and every other error of the delete: it
  fails exactly when the pinned map cannot be opened.
\<close>

theorem remove_prog_fd:
  "(MapName (Program b) = [] \<longrightarrow> RemoveNextProgFD env b w = (None, w)) \<and>
   (MapName (Program b) \<noteq> [] \<longrightarrow>
      (fst (RemoveNextProgFD env b w) = None \<longleftrightarrow>
         LoadPinnedMap env (clock w) (MapName (Program b)) = None \<and>
         map_Delete env (clock w) (MapName (Program b)) 0 = Deleted)) \<and>
   (MapName (Program b) \<noteq> [] \<and> LoadPinnedMap env (clock w) (MapName (Program b)) = None \<and>
    map_Delete env (clock w) (MapName (Program b)) 0 = KeyNotExist \<longrightarrow>
      fst (RemoveNextProgFD env b w) = Some (Errorf ''failed to delete prog fd entry'' [] None)) \<and>
   (fst (RemovePrevProgFD env b w) = None \<longleftrightarrow> LoadPinnedMap env (clock w) (PrevMapName b) = None)"
  by (auto simp: RemoveNextProgFD_def RemovePrevProgFD_def split: option.splits delete_result.splits)

theorem remove_prog_fd_witness:
  "RemoveNextProgFD c6_env (inst0\<lparr>Program := prog0\<lparr>MapName := []\<rparr>\<rparr>) w0 = (None, w0) \<and>
   fst (RemoveNextProgFD (c6_env\<lparr>map_Delete := (\<lambda>t p k. Deleted)\<rparr>) inst0 w0) = None \<and>
   fst (RemoveNextProgFD c6_env inst0 w0) = Some (Errorf ''failed to delete prog fd entry'' [] None) \<and>
   fst (RemovePrevProgFD c6_env inst0 w0) = None \<and>
   fst (RemovePrevProgFD env0 inst0 w0) \<noteq> None"
  using remove_prog_fd [of "inst0\<lparr>Program := prog0\<lparr>MapName := []\<rparr>\<rparr>" c6_env w0]
    remove_prog_fd [of inst0 "c6_env\<lparr>map_Delete := (\<lambda>t p k. Deleted)\<rparr>" w0]
    remove_prog_fd [of inst0 c6_env w0]
    remove_prog_fd [of inst0 env0 w0]
  by (simp add: c6_env_def env0_def inst0_def prog0_def NewBpfProgram_def zero_BPFProgram_def w0_def)

text \<open>C6 as stated fails: the pinned map opens, key 0 is not in it, and
  \<open>RemoveNextProgFD\<close> returns an error.\<close>

theorem remove_next_missing_key_counterexample:
  "MapName (Program inst0) = ''/sys/fs/bpf/ratelimit'' \<and>
   LoadPinnedMap c6_env 0 ''/sys/fs/bpf/ratelimit'' = None \<and>
   map_Delete c6_env 0 ''/sys/fs/bpf/ratelimit'' 0 = KeyNotExist \<and>
   RemoveNextProgFD c6_env inst0 w0 =
     (Some (Errorf ''failed to delete prog fd entry'' [] None),
      \<lparr>clock = 0, trace = [EvMapDelete ''/sys/fs/bpf/ratelimit'' 0]\<rparr>)"
  by (simp add: RemoveNextProgFD_def c6_env_def env0_def inst0_def prog0_def NewBpfProgram_def
      zero_BPFProgram_def w0_def emit_def)

subsection \<open>fileExists and LoadRootProgram\<close>

lemma GetArtifacts_Program: "GetArtifacts env conf b w = (r, b', w') \<Longrightarrow> Program b' = Program b"
  by (auto simp: GetArtifacts_def Let_def split: sum.splits prod.splits option.splits if_splits)

lemma VerifyAndGetArtifacts_Program:
  "VerifyAndGetArtifacts env conf b w = (r, b', w') \<Longrightarrow> Program b' = Program b"
  by (auto simp: VerifyAndGetArtifacts_def split: stat_result.splits dest: GetArtifacts_Program)

lemma root_program_MapName:
  "MapName (AddStopArgs a (AddStartArgs a' p)) = MapName p"
  by (simp add: AddStopArgs_def AddStartArgs_def)

text \<open>
  C10. \<open>fileExists\<close> panics exactly when \<^verbatim>\<open>os.Stat\<close> fails with an error other than
  "not exist". \<open>LoadRootProgram\<close> calls it on the map name of the root program once the
  type is known and the artifacts are in place; there such a path makes it panic.
\<close>

theorem fileExists_panics:
  "(fileExists env filename w = Panics \<longleftrightarrow> (\<exists>e. Stat env (clock w) filename = StatError e)) \<and>
   (root_program env direction eBPFType conf = Some r \<longrightarrow>
    VerifyAndGetArtifacts env conf
      (r\<lparr>Program := AddStopArgs \<lparr>Key = ''cmd'', Value = StopType env\<rparr>
         (AddStartArgs \<lparr>Key = ''cmd'', Value = StartType env\<rparr> (Program r))\<rparr>) w = (None, b, w1) \<longrightarrow>
    Stat env (clock w1) (MapName (Program r)) = StatError e \<longrightarrow>
    LoadRootProgram env ifaceName direction eBPFType conf w = Panics)"
proof -
  have a: "fileExists env filename w = Panics \<longleftrightarrow> (\<exists>e. Stat env (clock w) filename = StatError e)"
    by (auto simp: fileExists_def split: stat_result.splits)
  have b: "LoadRootProgram env ifaceName direction eBPFType conf w = Panics"
    if r: "root_program env direction eBPFType conf = Some r"
      and v: "VerifyAndGetArtifacts env conf
        (r\<lparr>Program := AddStopArgs \<lparr>Key = ''cmd'', Value = StopType env\<rparr>
           (AddStartArgs \<lparr>Key = ''cmd'', Value = StartType env\<rparr> (Program r))\<rparr>) w = (None, b, w1)"
      and s: "Stat env (clock w1) (MapName (Program r)) = StatError e"
  proof -
    have "MapName (Program b) = MapName (Program r)"
      using VerifyAndGetArtifacts_Program [OF v] by (simp add: root_program_MapName)
    then have "fileExists env (MapName (Program b)) w1 = Panics"
      using s by (simp add: fileExists_def)
    then show ?thesis
      using r v by (simp add: LoadRootProgram_def load_root_def and_then_def)
  qed
  show ?thesis using a b by blast
qed

theorem fileExists_panics_witness:
  "fileExists c10_env ''/sys/fs/bpf/xdp_root_array'' w0 = Panics \<and>
   Stat c10_env (clock w0) ''/sys/fs/bpf/xdp_root_array'' = StatError ''permission denied'' \<and>
   root_program c10_env ''xdpingress'' ''xdp'' conf0 \<noteq> None \<and>
   LoadRootProgram c10_env ''eth0'' ''xdpingress'' ''xdp'' conf0 w0 = Panics"
proof -
  define r where "r = the (root_program c10_env ''xdpingress'' ''xdp'' conf0)"
  have r: "root_program c10_env ''xdpingress'' ''xdp'' conf0 = Some r"
    by (simp add: r_def root_program_def c10_env_def env0_def)
  have m: "MapName (Program r) = ''/sys/fs/bpf/xdp_root_array''"
    by (simp add: r_def root_program_def c10_env_def env0_def conf0_def)
  have s: "Stat c10_env (clock w0) (MapName (Program r)) = StatError ''permission denied''"
    by (simp add: m c10_env_def)
  have v: "\<exists>b. VerifyAndGetArtifacts c10_env conf0
      (r\<lparr>Program := AddStopArgs \<lparr>Key = ''cmd'', Value = StopType c10_env\<rparr>
         (AddStartArgs \<lparr>Key = ''cmd'', Value = StartType c10_env\<rparr> (Program r))\<rparr>) w0 = (None, b, w0)"
    by (simp add: VerifyAndGetArtifacts_def r_def root_program_def c10_env_def env0_def conf0_def
        AddStopArgs_def AddStartArgs_def zero_BPFProgram_def zero_BPF_def filepath_Join_def path_Clean_def
        strings_Split_dot_0_def w0_def)
  then obtain b where v': "VerifyAndGetArtifacts c10_env conf0
      (r\<lparr>Program := AddStopArgs \<lparr>Key = ''cmd'', Value = StopType c10_env\<rparr>
         (AddStartArgs \<lparr>Key = ''cmd'', Value = StartType c10_env\<rparr> (Program r))\<rparr>) w0 = (None, b, w0)"
    by blast
  have "LoadRootProgram c10_env ''eth0'' ''xdpingress'' ''xdp'' conf0 w0 = Panics"
    using fileExists_panics [where env = c10_env and w = w0 and direction = "''xdpingress''"
        and eBPFType = "''xdp''" and conf = conf0 and r = r and b = b and ?w1.0 = w0
        and e = "''permission denied''" and ifaceName = "''eth0''"] r v' s
    by simp
  moreover have "fileExists c10_env ''/sys/fs/bpf/xdp_root_array'' w0 = Panics"
    using fileExists_panics [where env = c10_env and filename = "''/sys/fs/bpf/xdp_root_array''"
        and w = w0] s m by simp
  ultimately show ?thesis using r s m by simp
qed

subsection \<open>isRunning\<close>

lemma fold_eq_upper:
  assumes "65 \<le> (of_char c :: nat)" "(of_char c :: nat) \<le> 90"
  shows "fold_eq a c \<longleftrightarrow> ascii_upper a = c"
proof
  assume f: "fold_eq a c"
  define x y where "x = (of_char a :: nat)" and "y = (of_char c :: nat)"
  have "a = c \<or> (65 \<le> x \<and> x \<le> 90 \<and> y = x + 32) \<or> (65 \<le> y \<and> y \<le> 90 \<and> x = y + 32)"
    using f by (simp only: fold_eq_def x_def y_def)
  moreover have "65 \<le> y" "y \<le> 90"
    using assms by (simp_all only: y_def)
  ultimately have "a = c \<or> x = y + 32"
    by arith
  then consider "a = c" | "(of_char a :: nat) = of_char c + 32"
    unfolding x_def y_def by blast
  then show "ascii_upper a = c"
  proof cases
    case 1
    then show ?thesis using assms by (simp add: ascii_upper_def)
  next
    case 2
    then show ?thesis using assms by (simp add: ascii_upper_def)
  qed
next
  assume u: "ascii_upper a = c"
  show "fold_eq a c"
  proof (cases "97 \<le> (of_char a :: nat) \<and> (of_char a :: nat) \<le> 122")
    case True
    then have "c = char_of ((of_char a :: nat) - 32)" using u by (simp add: ascii_upper_def)
    moreover have "(of_char a :: nat) - 32 < 256" using True by arith
    ultimately have "(of_char c :: nat) = of_char a - 32" by simp
    then show ?thesis using True unfolding fold_eq_def by arith
  next
    case False
    then show ?thesis using u by (simp add: ascii_upper_def fold_eq_def split: if_splits)
  qed
qed

lemma EqualFold_RUNNING: "strings_EqualFold s bpfStatus \<longleftrightarrow> map ascii_upper s = ''RUNNING''"
proof -
  have "list_all2 fold_eq s t \<longleftrightarrow> map ascii_upper s = t"
    if "\<forall>c \<in> set t. 65 \<le> (of_char c :: nat) \<and> (of_char c :: nat) \<le> 90" for t
    using that
  proof (induction s arbitrary: t)
    case Nil
    then show ?case by auto
  next
    case (Cons a s)
    then show ?case by (cases t) (auto simp: fold_eq_upper)
  qed
  then show ?thesis
    by (simp add: strings_EqualFold_def bpfStatus_def)
qed

text \<open>
  C4, as amended. For every instance whose \<^verbatim>\<open>CmdStatus\<close> is longer than one byte,
  \<open>isRunning\<close> returns; it is true exactly when the status command passes the
  executable check and its captured output, as it is and not trimmed, is \<^verbatim>\<open>RUNNING\<close> up
  to the case of its letters; otherwise it is false together with an error. The command is
  run exactly when it passes the executable check.
\<close>

theorem isRunning_status:
  assumes "length (CmdStatus (Program b)) > 1"
  shows "\<exists>r w'. isRunning env b w = Returns (r, w') \<and>
    (fst r \<longleftrightarrow>
       assertExecutable env (clock w) (filepath_Join [FilePath b, CmdStatus (Program b)]) = None \<and>
       map ascii_upper (fst (cmd_Run env (clock w) (filepath_Join [FilePath b, CmdStatus (Program b)])
          (status_args (StatusArgs (Program b))))) = ''RUNNING'') \<and>
    (fst r \<longleftrightarrow> snd r = None) \<and>
    w' = (if assertExecutable env (clock w) (filepath_Join [FilePath b, CmdStatus (Program b)]) = None
          then emit (EvCmdRun (filepath_Join [FilePath b, CmdStatus (Program b)])
                 (status_args (StatusArgs (Program b)))) w
          else w)"
  using assms by (auto simp: isRunning_def EqualFold_RUNNING split: option.splits)

theorem isRunning_status_witness:
  "length (CmdStatus (Program c4_inst)) > 1 \<and>
   isRunning (env0\<lparr>cmd_Run := (\<lambda>t c a. (''Running'', None))\<rparr>) c4_inst w0 =
     Returns ((True, None),
       \<lparr>clock = 0, trace = [EvCmdRun ''/var/l3afd/bpf/ratelimit/1.0/ratelimit/status.sh'' []]\<rparr>)"
proof -
  have l: "length (CmdStatus (Program c4_inst)) > 1"
    by (simp add: c4_inst_def prog0_def)
  have p: "filepath_Join [FilePath c4_inst, CmdStatus (Program c4_inst)] =
      ''/var/l3afd/bpf/ratelimit/1.0/ratelimit/status.sh''"
    by (simp add: c4_inst_def inst0_def prog0_def filepath_Join_def path_Clean_def)
  have u: "map ascii_upper ''Running'' = ''RUNNING''"
    by code_simp
  have a: "status_args (StatusArgs (Program c4_inst)) = []"
    by (simp add: c4_inst_def inst0_def prog0_def zero_BPFProgram_def status_args_def)
  show ?thesis
    using isRunning_status [OF l, of "env0\<lparr>cmd_Run := (\<lambda>t c a. (''Running'', None))\<rparr>" w0] l u
    by (auto simp: p a env0_def w0_def emit_def)
qed

text \<open>C4 as stated fails: the output \<^verbatim>\<open>RUNNING\<close> followed by a line feed is \<^verbatim>\<open>RUNNING\<close>
  once trimmed, and \<open>isRunning\<close> is false.\<close>

theorem isRunning_untrimmed_counterexample:
  "length (CmdStatus (Program c4_inst)) > 1 \<and>
   fst (cmd_Run c4_env 0 ''/var/l3afd/bpf/ratelimit/1.0/ratelimit/status.sh'' []) = ''RUNNING'' @ [CHR 0x0A] \<and>
   strings_EqualFold (strings_TrimSpace (''RUNNING'' @ [CHR 0x0A])) ''RUNNING'' \<and>
   isRunning c4_env c4_inst w0 =
     Returns ((False, Some (Errorf ''l3afd/nf : BPF Program not running %s'' [S (''RUNNING'' @ [CHR 0x0A])] None)),
       \<lparr>clock = 0, trace = [EvCmdRun ''/var/l3afd/bpf/ratelimit/1.0/ratelimit/status.sh'' []]\<rparr>)"
  by (simp add: isRunning_def c4_env_def c4_inst_def inst0_def prog0_def env0_def w0_def emit_def
      filepath_Join_def path_Clean_def status_args_def zero_BPFProgram_def
      strings_EqualFold_def strings_TrimSpace_def bpfStatus_def is_space_def fold_eq_def)

subsection \<open>VerifyAndGetArtifacts\<close>

text \<open>
  C8. When \<^verbatim>\<open>os.Stat\<close> finds the directory (or fails with anything but "not exist"),
  \<open>VerifyAndGetArtifacts\<close> sets the file path to it and returns with the world as it was:
  no command is run and nothing is fetched. Only when the path does not exist is it
  \<open>GetArtifacts\<close>.
\<close>

theorem ensure_fetches_only_when_absent:
  "(Stat env (clock w) (filepath_Join [BPFDir conf, Name (Program b), Version (Program b),
        strings_Split_dot_0 (Artifact (Program b))]) \<noteq> NotExist \<longrightarrow>
      VerifyAndGetArtifacts env conf b w =
        (None, b\<lparr>FilePath := filepath_Join [BPFDir conf, Name (Program b), Version (Program b),
           strings_Split_dot_0 (Artifact (Program b))]\<rparr>, w)) \<and>
   (Stat env (clock w) (filepath_Join [BPFDir conf, Name (Program b), Version (Program b),
        strings_Split_dot_0 (Artifact (Program b))]) = NotExist \<longrightarrow>
      VerifyAndGetArtifacts env conf b w = GetArtifacts env conf b w)"
  by (auto simp: VerifyAndGetArtifacts_def split: stat_result.splits)

theorem ensure_fetches_only_when_absent_witness:
  "VerifyAndGetArtifacts c8_env conf0 (inst0\<lparr>FilePath := []\<rparr>) w0 =
     (None, inst0\<lparr>FilePath := ''/var/l3afd/bpf/ratelimit/1.0/ratelimit''\<rparr>, w0) \<and>
   VerifyAndGetArtifacts env0 conf0 (inst0\<lparr>FilePath := []\<rparr>) w0 =
     GetArtifacts env0 conf0 (inst0\<lparr>FilePath := []\<rparr>) w0 \<and>
   GetArtifacts env0 conf0 (inst0\<lparr>FilePath := []\<rparr>) w0 =
     (Some (Errorf ''download failed: %w'' [] (Some (OSError ''connection refused''))),
      inst0\<lparr>FilePath := []\<rparr>,
      \<lparr>clock = 0, trace = [EvCmdRun ''lsb_release'' [''-cs''],
         EvHttpGet ''http://repo.example/kfs/ratelimit/1.0/focal/ratelimit.tar.gz'']\<rparr>)"
proof -
  have p: "filepath_Join [BPFDir conf0, Name (Program (inst0\<lparr>FilePath := []\<rparr>)),
      Version (Program (inst0\<lparr>FilePath := []\<rparr>)),
      strings_Split_dot_0 (Artifact (Program (inst0\<lparr>FilePath := []\<rparr>)))] =
      ''/var/l3afd/bpf/ratelimit/1.0/ratelimit''"
    by (simp add: conf0_def inst0_def prog0_def NewBpfProgram_def filepath_Join_def path_Clean_def
        strings_Split_dot_0_def)
  have g: "GetArtifacts env0 conf0 (inst0\<lparr>FilePath := []\<rparr>) w0 =
     (Some (Errorf ''download failed: %w'' [] (Some (OSError ''connection refused''))),
      inst0\<lparr>FilePath := []\<rparr>,
      \<lparr>clock = 0, trace = [EvCmdRun ''lsb_release'' [''-cs''],
         EvHttpGet ''http://repo.example/kfs/ratelimit/1.0/focal/ratelimit.tar.gz'']\<rparr>)"
    by (simp add: GetArtifacts_def GetPlatform_def env0_def conf0_def inst0_def prog0_def
        NewBpfProgram_def path_Join_def path_Clean_def strings_TrimSpace_def is_space_def url_String_def
        w0_def emit_def Let_def)
  show ?thesis
    using ensure_fetches_only_when_absent [of c8_env w0 conf0 "inst0\<lparr>FilePath := []\<rparr>"]
      ensure_fetches_only_when_absent [of env0 w0 conf0 "inst0\<lparr>FilePath := []\<rparr>"] g
    unfolding p by (simp add: c8_env_def env0_def)
qed

subsection \<open>Stop\<close>

lemma Stop_terminate_not_running:
  "Stop_terminate env chain b2 w2 \<noteq>
      Returns (Some (Errorf ''BPFProgram is not running %s'' args c), b', w')"
proof (cases "ProcessTerminate env b2 w2")
  case (Returns r)
  obtain err w1 where r: "r = (err, w1)" by (cases r)
  show ?thesis
  proof (cases err)
    case (Some e)
    then show ?thesis using Returns r by (simp add: Stop_terminate_def and_then_def)
  next
    case None
    then show ?thesis using Returns r
      by (simp add: Stop_terminate_def and_then_def Let_def split: prod.splits option.splits)
  qed
next
  case Panics
  then show ?thesis by (simp add: Stop_terminate_def and_then_def)
next
  case Blocks
  then show ?thesis by (simp add: Stop_terminate_def and_then_def)
qed

lemma Stop_command_not_running:
  "Stop_command env ifaceName direction chain b2 w2 \<noteq>
      Returns (Some (Errorf ''BPFProgram is not running %s'' args c), b', w')"
  by (simp add: Stop_command_def Let_def split: prod.splits option.splits)


lemma Stop_unfold:
  "\<not> (IsUserProgram (Program b) \<and> Cmd b = None) \<Longrightarrow>
   Stop env ifaceName direction chain b w = Blocks \<or>
   (\<exists>b2 w2. Stop env ifaceName direction chain b w = Stop_terminate env chain b2 w2) \<or>
   (\<exists>b2 w2. Stop env ifaceName direction chain b w = Stop_command env ifaceName direction chain b2 w2)"
  unfolding Stop_def Let_def by (simp only: if_not_P split: if_split) blast

lemma Stop_not_running_only:
  assumes "Stop env ifaceName direction chain b w =
      Returns (Some (Errorf ''BPFProgram is not running %s'' args c), b', w')"
  shows "IsUserProgram (Program b) \<and> Cmd b = None"
proof (rule ccontr)
  assume n: "\<not> (IsUserProgram (Program b) \<and> Cmd b = None)"
  show False
    using Stop_unfold [OF n, of env ifaceName direction chain w] assms
      Stop_terminate_not_running Stop_command_not_running
    by (metis outcome.distinct(3))
qed






lemma metrics_loop_empty: "metrics_loop env [] (Suc n) w = (True, w)"
  by simp

lemma VerifyMetricsMapsVanish_cleared:
  "BpfMaps b = None \<or> BpfMaps b = Some [] \<Longrightarrow> VerifyMetricsMapsVanish env b w = (None, w)"
proof -
  have "(10::nat) = Suc 9" by simp
  then have "metrics_loop env [] 10 w = (True, w)"
    by (simp only: metrics_loop_empty)
  then show "BpfMaps b = None \<or> BpfMaps b = Some [] \<Longrightarrow> VerifyMetricsMapsVanish env b w = (None, w)"
    by (auto simp: VerifyMetricsMapsVanish_def entries_def)
qed

text \<open>Whatever the kernel answers, \<open>Stop\<close> does not fail on account of the recorded
  maps: it has emptied \<open>BpfMaps\<close> when it comes to check them.\<close>

lemma Stop_unfold_cleared:
  assumes "\<not> (IsUserProgram (Program b) \<and> Cmd b = None)"
  shows "Stop env ifaceName direction chain b w = Blocks \<or>
   (\<exists>b2 w2. (BpfMaps b2 = None \<or> BpfMaps b2 = Some []) \<and>
      (Stop env ifaceName direction chain b w = Stop_terminate env chain b2 w2 \<or>
       Stop env ifaceName direction chain b w = Stop_command env ifaceName direction chain b2 w2))"
proof -
  define b2 where "b2 = b\<lparr>BpfMaps := map_option (\<lambda>m. []) (BpfMaps b),
      MetricsBpfMaps := map_option (\<lambda>m. []) (MetricsBpfMaps b), ProgID := 0\<rparr>"
  have c: "BpfMaps b2 = None \<or> BpfMaps b2 = Some []"
    by (cases "BpfMaps b") (simp_all add: b2_def)
  have "Stop env ifaceName direction chain b w = Blocks \<or>
      (\<exists>w2. Stop env ifaceName direction chain b w = Stop_terminate env chain b2 w2 \<or>
        Stop env ifaceName direction chain b w = Stop_command env ifaceName direction chain b2 w2)"
    using assms unfolding Stop_def Let_def b2_def
    by (simp only: if_not_P split: if_split) blast
  then show ?thesis using c by blast
qed

lemma Stop_terminate_cleared:
  assumes "BpfMaps b = None \<or> BpfMaps b = Some []"
  shows "Stop_terminate env chain b w \<noteq>
    Returns (Some (Errorf ''stop user program - failed to remove metric map references %s'' args c), b', w')"
proof (cases "ProcessTerminate env b w")
  case (Returns r)
  obtain err w1 where r: "r = (err, w1)" by (cases r)
  show ?thesis
  proof (cases err)
    case (Some e)
    then show ?thesis using Returns r by (simp add: Stop_terminate_def and_then_def)
  next
    case None
    have v1: "VerifyMetricsMapsVanish env (b\<lparr>Cmd := None\<rparr>) w3 = (None, w3)" for w3
      using assms by (intro VerifyMetricsMapsVanish_cleared) auto
    have v2: "VerifyMetricsMapsVanish env b w3 = (None, w3)" for w3
      using assms by (intro VerifyMetricsMapsVanish_cleared) auto
    show ?thesis using Returns r None
      by (simp add: Stop_terminate_def and_then_def Let_def v1 v2 split: prod.splits option.splits)
  qed
next
  case Panics
  then show ?thesis by (simp add: Stop_terminate_def and_then_def)
next
  case Blocks
  then show ?thesis by (simp add: Stop_terminate_def and_then_def)
qed

lemma Stop_command_cleared:
  assumes "BpfMaps b = None \<or> BpfMaps b = Some []"
  shows "Stop_command env ifaceName direction chain b w \<noteq>
    Returns (Some (Errorf ''failed to remove metric map references %s'' args c), b', w')"
proof -
  have v: "VerifyMetricsMapsVanish env (b\<lparr>Cmd := None\<rparr>) w3 = (None, w3)" for w3
    using assms by (intro VerifyMetricsMapsVanish_cleared) auto
  show ?thesis
    by (simp add: Stop_command_def Let_def v split: prod.splits option.splits)
qed

lemma Stop_terminate_fmt:
  "Stop_terminate env chain b w \<noteq>
    Returns (Some (Errorf ''failed to remove metric map references %s'' args c), b', w')"
proof (cases "ProcessTerminate env b w")
  case (Returns r)
  obtain err w1 where r: "r = (err, w1)" by (cases r)
  show ?thesis using Returns r
    by (cases err) (simp_all add: Stop_terminate_def and_then_def Let_def split: prod.splits option.splits)
next
  case Panics
  then show ?thesis by (simp add: Stop_terminate_def and_then_def)
next
  case Blocks
  then show ?thesis by (simp add: Stop_terminate_def and_then_def)
qed

lemma Stop_command_fmt:
  "Stop_command env ifaceName direction chain b w \<noteq>
    Returns (Some (Errorf ''stop user program - failed to remove metric map references %s'' args c), b', w')"
  by (simp add: Stop_command_def Let_def split: prod.splits option.splits)

lemma Stop_map_check_never_fails:
  "Stop env ifaceName direction chain b w \<noteq>
     Returns (Some (Errorf ''stop user program - failed to remove metric map references %s'' args c), b', w') \<and>
   Stop env ifaceName direction chain b w \<noteq>
     Returns (Some (Errorf ''failed to remove metric map references %s'' args c), b', w')"
proof (cases "IsUserProgram (Program b) \<and> Cmd b = None")
  case True
  then show ?thesis by (simp add: Stop_def)
next
  case False
  from Stop_unfold_cleared [OF False, of env ifaceName direction chain w]
  show ?thesis
    using Stop_terminate_cleared Stop_command_cleared Stop_terminate_fmt Stop_command_fmt
    by (metis outcome.distinct(3))
qed

text \<open>
  C1 fails on the code: \<open>Stop\<close> empties \<open>BpfMaps\<close> before \<open>VerifyMetricsMapsVanish\<close>
  ranges over it, so the check sees no map. Here the instance has recorded map 7, the
  kernel still resolves it, and \<open>Stop\<close> returns success at once.
\<close>

theorem stop_succeeds_with_live_maps:
  "map_of (entries (BpfMaps c1_inst)) ''rl_config_map'' =
     Some \<lparr>map_Name = ''rl_config_map'', MapID = 7, Type = 2\<rparr> \<and>
   NewMapFromID c1_env 0 7 = None \<and>
   Stop c1_env ''eth0'' ''xdpingress'' True c1_inst w0 =
     Returns (None, c1_inst\<lparr>Cmd := None, BpfMaps := Some []\<rparr>,
       \<lparr>clock = 0,
        trace = [EvStatsIncr ''NFStopCount'' ''ratelimit'' ''xdpingress'',
                 EvStatsSet 0 ''NFRunning'' ''ratelimit'' ''xdpingress'',
                 EvSignalTerm 4242, EvCmdWait]\<rparr>)"
  by code_simp

subsection \<open>GetArtifacts\<close>






subsection \<open>Start\<close>

text \<open>
  C9. When \<open>Start\<close> gets as far as starting the child and the start fails, it returns the
  error "failed to start" and leaves \<open>Cmd\<close> set to the command that failed, whose process
  is nil. \<open>Stop\<close> of that instance, in any environment, does not return "BPFProgram is
  not running".
\<close>

theorem start_spawn_failure:
  assumes "FilePath b \<noteq> []"
    and "StopExternalRunningProcess env (CmdStart (Program b)) w = (None, w1)"
    and "assertExecutable env (clock w1) (filepath_Join [FilePath b, CmdStart (Program b)]) = None"
    and "\<And>t args. isl (cmd_Start env t (filepath_Join [FilePath b, CmdStart (Program b)]) args)"
  shows "\<exists>args w'.
      Start env ifaceName direction chain b w =
        Returns (Some (Errorf ''failed to start : %s %v''
            [S (filepath_Join [FilePath b, CmdStart (Program b)]), L args] None),
          b\<lparr>Cmd := Some \<lparr>Path = filepath_Join [FilePath b, CmdStart (Program b)], Args = args,
                           Process = None\<rparr>\<rparr>, w') \<and>
      (\<forall>env2 i2 d2 c2 w2 fargs fc b2 w3.
         Stop env2 i2 d2 c2
           (b\<lparr>Cmd := Some \<lparr>Path = filepath_Join [FilePath b, CmdStart (Program b)], Args = args,
                            Process = None\<rparr>\<rparr>) w2 \<noteq>
         Returns (Some (Errorf ''BPFProgram is not running %s'' fargs fc), b2, w3))"
proof -
  let ?cmd = "filepath_Join [FilePath b, CmdStart (Program b)]"
  have f: "\<exists>e. cmd_Start env t ?cmd args = Inl e" for t args
    using assms(4) [of t args] by (cases "cmd_Start env t ?cmd args") simp_all
  define w2 where "w2 = (if length (PrevMapName b) > 0 then snd (RemovePrevProgFD env b w1) else w1)"
  define rules where "rules =
    (if length (RulesFile (Program b)) > 1 \<and> length (Rules (Program b)) > 1
     then (case createUpdateRulesFile env direction b w2 of
             (Inl e, w') \<Rightarrow> (None, w')
           | (Inr fileName, w') \<Rightarrow> (Some fileName, w'))
     else (None, w2))"
  define args where "args = start_args ifaceName direction chain b (fst rules)"
  define w3 where "w3 = emit (EvCmdStart ?cmd args) (snd rules)"
  obtain e where e: "cmd_Start env (clock w3) ?cmd args = Inl e"
    using f by blast
  have "Start env ifaceName direction chain b w =
      Returns (Some (Errorf ''failed to start : %s %v'' [S ?cmd, L args] None),
        b\<lparr>Cmd := Some \<lparr>Path = ?cmd, Args = args, Process = None\<rparr>\<rparr>, w3)"
    using assms(1-3) e unfolding Start_def Let_def w3_def args_def rules_def w2_def
    by simp
  then have s: "\<exists>args w'. Start env ifaceName direction chain b w =
        Returns (Some (Errorf ''failed to start : %s %v'' [S ?cmd, L args] None),
          b\<lparr>Cmd := Some \<lparr>Path = ?cmd, Args = args, Process = None\<rparr>\<rparr>, w')"
    by blast
  have n: "Stop env2 i2 d2 c2 (b\<lparr>Cmd := Some \<lparr>Path = ?cmd, Args = args, Process = None\<rparr>\<rparr>) w2 \<noteq>
         Returns (Some (Errorf ''BPFProgram is not running %s'' fargs fc), b2, w3)"
    for env2 i2 d2 c2 w2 fargs fc b2 w3 args
    using Stop_not_running_only
      [of env2 i2 d2 c2 "b\<lparr>Cmd := Some \<lparr>Path = ?cmd, Args = args, Process = None\<rparr>\<rparr>" w2 fargs fc b2 w3]
    by auto
  show ?thesis using s n by blast
qed

theorem start_spawn_failure_witness:
  "FilePath inst0 \<noteq> [] \<and>
   Start c9_env ''eth0'' ''xdpingress'' True inst0 w0 =
     Returns (Some (Errorf ''failed to start : %s %v''
         [S ''/var/l3afd/bpf/ratelimit/1.0/ratelimit/ratelimit'',
          L [''--iface=eth0'', ''--direction=xdpingress'', ''--map-name=/sys/fs/bpf/xdp_root_array'',
             ''--log-dir=/var/log/l3afd'']] None),
       inst0\<lparr>Cmd := Some \<lparr>Path = ''/var/l3afd/bpf/ratelimit/1.0/ratelimit/ratelimit'',
          Args = [''--iface=eth0'', ''--direction=xdpingress'', ''--map-name=/sys/fs/bpf/xdp_root_array'',
             ''--log-dir=/var/log/l3afd''], Process = None\<rparr>\<rparr>,
       \<lparr>clock = 0, trace = [EvCmdStart ''/var/l3afd/bpf/ratelimit/1.0/ratelimit/ratelimit''
          [''--iface=eth0'', ''--direction=xdpingress'', ''--map-name=/sys/fs/bpf/xdp_root_array'',
             ''--log-dir=/var/log/l3afd'']]\<rparr>) \<and>
   Stop c9_env ''eth0'' ''xdpingress'' True
     (inst0\<lparr>Cmd := Some \<lparr>Path = ''/var/l3afd/bpf/ratelimit/1.0/ratelimit/ratelimit'',
          Args = [''--iface=eth0'', ''--direction=xdpingress'', ''--map-name=/sys/fs/bpf/xdp_root_array'',
             ''--log-dir=/var/log/l3afd''], Process = None\<rparr>\<rparr>) w0 = Panics"
proof -
  have 1: "FilePath inst0 \<noteq> []"
    by (simp add: inst0_def)
  have 2: "StopExternalRunningProcess c9_env (CmdStart (Program inst0)) w0 = (None, w0)"
    by code_simp
  have 3: "assertExecutable c9_env (clock w0) (filepath_Join [FilePath inst0, CmdStart (Program inst0)]) = None"
    by (simp add: c9_env_def env0_def)
  have 4: "isl (cmd_Start c9_env t (filepath_Join [FilePath inst0, CmdStart (Program inst0)]) args)" for t args
    by (simp add: c9_env_def)
  have e: "Start c9_env ''eth0'' ''xdpingress'' True inst0 w0 =
     Returns (Some (Errorf ''failed to start : %s %v''
         [S ''/var/l3afd/bpf/ratelimit/1.0/ratelimit/ratelimit'',
          L [''--iface=eth0'', ''--direction=xdpingress'', ''--map-name=/sys/fs/bpf/xdp_root_array'',
             ''--log-dir=/var/log/l3afd'']] None),
       inst0\<lparr>Cmd := Some \<lparr>Path = ''/var/l3afd/bpf/ratelimit/1.0/ratelimit/ratelimit'',
          Args = [''--iface=eth0'', ''--direction=xdpingress'', ''--map-name=/sys/fs/bpf/xdp_root_array'',
             ''--log-dir=/var/log/l3afd''], Process = None\<rparr>\<rparr>,
       \<lparr>clock = 0, trace = [EvCmdStart ''/var/l3afd/bpf/ratelimit/1.0/ratelimit/ratelimit''
          [''--iface=eth0'', ''--direction=xdpingress'', ''--map-name=/sys/fs/bpf/xdp_root_array'',
             ''--log-dir=/var/log/l3afd'']]\<rparr>)"
    by code_simp
  have p: "Stop c9_env ''eth0'' ''xdpingress'' True
     (inst0\<lparr>Cmd := Some \<lparr>Path = ''/var/l3afd/bpf/ratelimit/1.0/ratelimit/ratelimit'',
          Args = [''--iface=eth0'', ''--direction=xdpingress'', ''--map-name=/sys/fs/bpf/xdp_root_array'',
             ''--log-dir=/var/log/l3afd''], Process = None\<rparr>\<rparr>) w0 = Panics"
    by code_simp
  show ?thesis
    using start_spawn_failure [OF 1 2 3 4, of "''eth0''" "''xdpingress''" True] 1 e p by simp
qed

subsection \<open>Polls and clocks\<close>
















lemma AddBPFMap_Program: "AddBPFMap env k b w = Returns (r, b1) \<Longrightarrow> Program b1 = Program b"
  by (auto simp: AddBPFMap_def split: sum.splits option.splits)













end
